theory Spec2Isabelle
  imports Complex_Main "HOL-Library.AList" "HOL-Library.Char_ord" "HOL-Library.List_Lexorder"
begin

section \<open>Shared data types\<close>

text \<open>
  The calculation engine of Felix, as far as the event sequencer
  (\<^verbatim>\<open>calc/event_sequencer.go\<close>), the hostname filter and the policy sorter
  (\<^verbatim>\<open>go/felix/calc/calc_graph.go\<close> and the policy sorter file appended to it) and the
  logging set-up (\<^verbatim>\<open>logutils\<close>) are concerned.

  Go panics and \<^verbatim>\<open>log.Fatal\<close> are values of the type \<open>error\<close>; a function that can
  abort returns \<open>error + 'a\<close>.
\<close>

datatype error = Panic string | Fatal string

text \<open>
  Network values of the Go standard library and of the \<^verbatim>\<open>ip\<close> package are only ever
  printed with their \<^verbatim>\<open>String()\<close> method and compared for equality by the code below;
  each is represented by the canonical text that \<^verbatim>\<open>String()\<close> prints.
\<close>

datatype Addr = Addr string
datatype IPNet = IPNet string
datatype IP = IP string
datatype MAC = MAC string
datatype CIDR = CIDR string

fun Addr_String :: "Addr \<Rightarrow> string" where
  "Addr_String (Addr s) = s"

fun IPNet_String :: "IPNet \<Rightarrow> string" where
  "IPNet_String (IPNet s) = s"

fun IP_String :: "IP \<Rightarrow> string" where
  "IP_String (IP s) = s"

fun MAC_String :: "MAC \<Rightarrow> string" where
  "MAC_String (MAC s) = s"

fun CIDR_String :: "CIDR \<Rightarrow> string" where
  "CIDR_String (CIDR s) = s"

text \<open>The keys of the datastore model (\<^verbatim>\<open>model.Key\<close> is an interface; its
  implementations that the code switches on are constructors, every other kind of key is
  \<open>OtherKey\<close>).\<close>

datatype PolicyKey = PolicyKey (pk_Name: string)
datatype ProfileRulesKey = ProfileRulesKey (prk_Name: string)
datatype IPPoolKey = IPPoolKey (ipk_CIDR: IPNet)

datatype Key =
    WorkloadEndpointKey (wk_Hostname: string) (wk_OrchestratorID: string)
      (wk_WorkloadID: string) (wk_EndpointID: string)
  | HostEndpointKey (hk_Hostname: string) (hk_EndpointID: string)
  | PolicyKeyOf PolicyKey
  | ProfileRulesKeyOf ProfileRulesKey
  | HostIPKey string
  | IPPoolKeyOf IPPoolKey
  | OtherKey string

text \<open>\<^verbatim>\<open>model.Policy\<close>: the fields that the code reads. \<^verbatim>\<open>Order\<close> is a
  \<^verbatim>\<open>*float64\<close>; the nil pointer is \<open>None\<close>. The numeric orders are compared with
  \<^verbatim>\<open>==\<close> and \<^verbatim>\<open><\<close> only, and are taken to be numbers (no NaN), so they are reals.\<close>

datatype Policy = Policy (pol_Order: "real option") (pol_DoNotTrack: bool)

datatype PolKV = PolKV (kv_Key: PolicyKey) (kv_Value: Policy)

datatype tierInfo = tierInfo (ti_Name: string) (ti_Valid: bool) (ti_Order: "real option")
  (ti_Policies: "(PolicyKey \<times> Policy) list") (ti_OrderedPolicies: "PolKV list")

section \<open>The hostname filter\<close>

text \<open>\<^verbatim>\<open>api.Update\<close>: a key and a value, where a nil value is a deletion. The filter only
  tests the value against nil, so the value's content is a type parameter.\<close>

datatype 'v Update = Update (upd_Key: Key) (upd_Value: "'v option")

datatype endpointHostnameFilter = endpointHostnameFilter (f_hostname: string)

text \<open>\<^verbatim>\<open>endpointHostnameFilter.OnUpdate\<close>. The result is \<^verbatim>\<open>filterOut\<close>; the log lines
  written for local endpoints are not part of the result.\<close>

fun endpointHostnameFilter_OnUpdate :: "endpointHostnameFilter \<Rightarrow> 'v Update \<Rightarrow> bool" where
  "endpointHostnameFilter_OnUpdate f update =
     (case upd_Key update of
        WorkloadEndpointKey hostname _ _ _ \<Rightarrow> (if hostname \<noteq> f_hostname f then True else False)
      | HostEndpointKey hostname _ \<Rightarrow> (if hostname \<noteq> f_hostname f then True else False)
      | _ \<Rightarrow> False)"

section \<open>The policy sorter\<close>




section \<open>Logging levels\<close>

text \<open>\<^verbatim>\<open>logrus.Level\<close> is an unsigned integer, larger meaning more verbose; the code
  only compares levels.\<close>

type_synonym Level = nat

definition PanicLevel :: Level where "PanicLevel = 0"
definition FatalLevel :: Level where "FatalLevel = 1"
definition ErrorLevel :: Level where "ErrorLevel = 2"
definition WarnLevel :: Level where "WarnLevel = 3"
definition InfoLevel :: Level where "InfoLevel = 4"
definition DebugLevel :: Level where "DebugLevel = 5"

text \<open>\<^verbatim>\<open>config.Config\<close>: the three severities that \<^verbatim>\<open>ConfigureLogging\<close> parses.\<close>

record Config =
  LogSeverityScreen :: string
  LogSeverityFile :: string
  LogSeveritySys :: string

text \<open>\<^verbatim>\<open>safeParseLogLevel\<close>. \<^verbatim>\<open>logrus.ParseLevel\<close> belongs to a library; it is the
  parameter \<open>ParseLevel\<close>, which returns \<open>None\<close> for its error.\<close>

definition safeParseLogLevel :: "(string \<Rightarrow> Level option) \<Rightarrow> string \<Rightarrow> Level" where
  "safeParseLogLevel ParseLevel logLevel =
     (let defaultedLevel = PanicLevel
      in if logLevel \<noteq> ''''
         then (case ParseLevel logLevel of
                 Some parsedLevel \<Rightarrow> parsedLevel
               | None \<Rightarrow> defaultedLevel)
         else defaultedLevel)"

text \<open>\<^verbatim>\<open>ConfigureLogging\<close>, up to the call of \<^verbatim>\<open>log.SetLevel\<close>: the result is the level
  passed to it. The hooks installed afterwards do not change it.\<close>

definition ConfigureLogging_SetLevel :: "(string \<Rightarrow> Level option) \<Rightarrow> Config \<Rightarrow> Level" where
  "ConfigureLogging_SetLevel ParseLevel configParams =
     (let logLevelScreen = safeParseLogLevel ParseLevel (LogSeverityScreen configParams);
          logLevelFile = safeParseLogLevel ParseLevel (LogSeverityFile configParams);
          logLevelSyslog = safeParseLogLevel ParseLevel (LogSeveritySys configParams);
          mostVerboseLevel = logLevelScreen;
          mostVerboseLevel = (if logLevelFile > mostVerboseLevel then logLevelFile
                              else mostVerboseLevel);
          mostVerboseLevel = (if logLevelSyslog > mostVerboseLevel then logLevelScreen
                              else mostVerboseLevel)
      in mostVerboseLevel)"

section \<open>Sets, multimaps and maps of the sequencer\<close>

text \<open>
  Modelled from the spec: the packages \<^verbatim>\<open>set\<close> and \<^verbatim>\<open>multidict\<close> of the repository, which
  are not among the sources. The specification calls the pending and sent sets "id sets" and
  the pending IPs "keyed multimaps from set id to IP", and says that "the sequencer iterates
  pending sets and removes consumed entries in the same pass".

  A set is a list without repetition, a multimap a list of (key, value) pairs without
  repetition, so that a key with no value left is no key. Go leaves the order of an
  iteration over a set or a map open; here it is the order of the list. No theorem below
  supposes anything about that order.
\<close>

definition setContains :: "'a list \<Rightarrow> 'a \<Rightarrow> bool" where
  "setContains s x = (x \<in> set s)"

definition setAdd :: "'a list \<Rightarrow> 'a \<Rightarrow> 'a list" where
  "setAdd s x = (if x \<in> set s then s else s @ [x])"

definition setDiscard :: "'a list \<Rightarrow> 'a \<Rightarrow> 'a list" where
  "setDiscard s x = removeAll x s"

definition mdContains :: "('k \<times> 'v) list \<Rightarrow> 'k \<Rightarrow> 'v \<Rightarrow> bool" where
  "mdContains m k v = ((k, v) \<in> set m)"

definition mdPut :: "('k \<times> 'v) list \<Rightarrow> 'k \<Rightarrow> 'v \<Rightarrow> ('k \<times> 'v) list" where
  "mdPut m k v = (if (k, v) \<in> set m then m else m @ [(k, v)])"

definition mdDiscard :: "('k \<times> 'v) list \<Rightarrow> 'k \<Rightarrow> 'v \<Rightarrow> ('k \<times> 'v) list" where
  "mdDiscard m k v = removeAll (k, v) m"

definition mdDiscardKey :: "('k \<times> 'v) list \<Rightarrow> 'k \<Rightarrow> ('k \<times> 'v) list" where
  "mdDiscardKey m k = filter (\<lambda>p. fst p \<noteq> k) m"

text \<open>\<^verbatim>\<open>Iter(key, f)\<close> visits the values stored under a key, \<^verbatim>\<open>IterKeys(f)\<close> the keys.\<close>

definition mdValues :: "('k \<times> 'v) list \<Rightarrow> 'k \<Rightarrow> 'v list" where
  "mdValues m k = map snd (filter (\<lambda>p. fst p = k) m)"

definition mdKeys :: "('k \<times> 'v) list \<Rightarrow> 'k list" where
  "mdKeys m = remdups (map fst m)"

text \<open>A Go map is an association list with one entry for a key: \<open>m[k] = v\<close> is
  \<^const>\<open>AList.update\<close>, \<open>delete(m, k)\<close> is \<^const>\<open>AList.delete\<close>, a lookup is
  \<^const>\<open>map_of\<close>.\<close>

text \<open>A \<^verbatim>\<open>range\<close> loop, or an \<^verbatim>\<open>Iter\<close> with a callback, over the items that a container
  holds when the loop starts. Every loop of the sequencer removes from the container it
  iterates only the item it is visiting, so these are the items it visits. The loop threads
  the state, collects what each round emits, and stops at the first round that aborts.\<close>

fun forEach :: "('a \<Rightarrow> 's \<Rightarrow> error + ('s \<times> 'm list)) \<Rightarrow> 'a list \<Rightarrow> 's
    \<Rightarrow> error + ('s \<times> 'm list)" where
  "forEach body [] s = Inr (s, [])"
| "forEach body (x # xs) s =
     (case body x s of
        Inl e \<Rightarrow> Inl e
      | Inr (s1, out1) \<Rightarrow>
          (case forEach body xs s1 of
             Inl e \<Rightarrow> Inl e
           | Inr (s2, out2) \<Rightarrow> Inr (s2, out1 @ out2)))"

section \<open>Datastore values and dataplane messages\<close>

type_synonym rawmap = "(string \<times> string) list"

text \<open>\<^verbatim>\<open>ParsedRules\<close>: the rule lists and the untracked flag; a rule itself is opaque
  (type \<open>'r\<close>).\<close>

datatype 'r ParsedRules = ParsedRules (pr_InboundRules: "'r list") (pr_OutboundRules: "'r list")
  (pr_Untracked: bool)

datatype IPNAT = IPNAT (nat_IntIP: IP) (nat_ExtIP: IP)

datatype WorkloadEndpoint = WorkloadEndpoint (wep_State: string) (wep_Name: string)
  (wep_Mac: "MAC option") (wep_ProfileIDs: "string list")
  (wep_IPv4Nets: "IPNet list") (wep_IPv6Nets: "IPNet list")
  (wep_IPv4NAT: "IPNAT list") (wep_IPv6NAT: "IPNAT list")

datatype HostEndpoint = HostEndpoint (hep_Name: string)
  (hep_ExpectedIPv4Addrs: "IP list") (hep_ExpectedIPv6Addrs: "IP list")
  (hep_ProfileIDs: "string list")

text \<open>The endpoint handed to \<^verbatim>\<open>OnEndpointTierUpdate\<close> is an \<^verbatim>\<open>interface{}\<close>; nil is
  \<open>None\<close>, and a value that is neither kind of endpoint is \<open>OtherEndpoint\<close>.\<close>

datatype Endpoint = WorkloadEndpointOf WorkloadEndpoint | HostEndpointOf HostEndpoint
  | OtherEndpoint

datatype IPPool = IPPool (pool_CIDR: IPNet) (pool_Masquerade: bool)

text \<open>The messages of package \<^verbatim>\<open>proto\<close>, with the fields that the sequencer fills in.
  A converted rule is opaque (type \<open>'p\<close>).\<close>

datatype proto_PolicyID = proto_PolicyID (pid_Tier: string) (pid_Name: string)
datatype proto_ProfileID = proto_ProfileID (prid_Name: string)
datatype 'p proto_Policy = proto_Policy (pp_InboundRules: "'p list")
  (pp_OutboundRules: "'p list") (pp_Untracked: bool)
datatype 'p proto_Profile = proto_Profile (ppr_InboundRules: "'p list")
  (ppr_OutboundRules: "'p list")
datatype proto_TierInfo = proto_TierInfo (pti_Name: string) (pti_Policies: "string list")
datatype proto_NatInfo = proto_NatInfo (ni_ExtIp: string) (ni_IntIp: string)
datatype proto_WorkloadEndpointID = proto_WorkloadEndpointID (wid_OrchestratorId: string)
  (wid_WorkloadId: string) (wid_EndpointId: string)
datatype proto_HostEndpointID = proto_HostEndpointID (hid_EndpointId: string)

datatype proto_WorkloadEndpoint = proto_WorkloadEndpoint (pw_State: string) (pw_Name: string)
  (pw_Mac: string) (pw_ProfileIds: "string list") (pw_Ipv4Nets: "string list")
  (pw_Ipv6Nets: "string list") (pw_Tiers: "proto_TierInfo list")
  (pw_Ipv4Nat: "proto_NatInfo list") (pw_Ipv6Nat: "proto_NatInfo list")

datatype proto_HostEndpoint = proto_HostEndpoint (ph_Name: string)
  (ph_ExpectedIpv4Addrs: "string list") (ph_ExpectedIpv6Addrs: "string list")
  (ph_ProfileIds: "string list") (ph_Tiers: "proto_TierInfo list")
  (ph_UntrackedTiers: "proto_TierInfo list")

datatype proto_IPAMPool = proto_IPAMPool (ipam_Cidr: string) (ipam_Masquerade: bool)

datatype 'p msg =
    DatastoreNotReady
  | ConfigUpdate rawmap
  | IPSetUpdate string "string list"
  | IPSetDeltaUpdate string "string list" "string list"
  | IPSetRemove string
  | ActivePolicyUpdate proto_PolicyID "'p proto_Policy"
  | ActivePolicyRemove proto_PolicyID
  | ActiveProfileUpdate proto_ProfileID "'p proto_Profile"
  | ActiveProfileRemove proto_ProfileID
  | WorkloadEndpointUpdate proto_WorkloadEndpointID proto_WorkloadEndpoint
  | WorkloadEndpointRemove proto_WorkloadEndpointID
  | HostEndpointUpdate proto_HostEndpointID proto_HostEndpoint
  | HostEndpointRemove proto_HostEndpointID
  | HostMetadataUpdate string string
  | HostMetadataRemove string
  | IPAMPoolUpdate string proto_IPAMPool
  | IPAMPoolRemove string

section \<open>The event sequencer\<close>

text \<open>What the sequencer calls outside its own file: the configuration object behind
  \<^verbatim>\<open>configInterface\<close> (its state has type \<open>'c\<close>; \<^verbatim>\<open>UpdateFrom\<close> returns the error
  text, or the changed flag and the updated object), the conversion of parsed rules, and
  the conversion of a pool's network to a \<^verbatim>\<open>ip.CIDR\<close>.\<close>

datatype Source = DatastoreGlobal | DatastorePerHost

record ('c, 'r, 'p) externals =
  UpdateFrom :: "'c \<Rightarrow> rawmap option \<Rightarrow> Source \<Rightarrow> string + (bool \<times> 'c)"
  RawValues :: "'c \<Rightarrow> rawmap"
  parsedRulesToProtoRules :: "'r list \<Rightarrow> string \<Rightarrow> 'p list"
  CIDRFromCalicoNet :: "IPNet \<Rightarrow> CIDR"

text \<open>\<^verbatim>\<open>pendingIPPoolDeletes\<close> is a set of \<^verbatim>\<open>interface{}\<close> that the code uses with two
  types: \<^verbatim>\<open>OnIPPoolRemove\<close> adds an \<^verbatim>\<open>ip.CIDR\<close>, \<^verbatim>\<open>OnIPPoolUpdate\<close> discards a
  \<^verbatim>\<open>model.IPPoolKey\<close>. Its items are the sum of the two. Every other set is used with one
  type.\<close>

datatype poolItem = CIDRItem CIDR | IPPoolKeyItem IPPoolKey

record ('c, 'r) EventSequencer =
  config :: 'c
  pendingAddedIPSets :: "string list"
  pendingRemovedIPSets :: "string list"
  pendingAddedIPs :: "(string \<times> Addr) list"
  pendingRemovedIPs :: "(string \<times> Addr) list"
  pendingPolicyUpdates :: "(PolicyKey \<times> 'r ParsedRules option) list"
  pendingPolicyDeletes :: "PolicyKey list"
  pendingProfileUpdates :: "(ProfileRulesKey \<times> 'r ParsedRules option) list"
  pendingProfileDeletes :: "ProfileRulesKey list"
  pendingEndpointUpdates :: "(Key \<times> Endpoint) list"
  pendingEndpointTierUpdates :: "(Key \<times> tierInfo list) list"
  pendingEndpointDeletes :: "Key list"
  pendingHostIPUpdates :: "(string \<times> IP option) list"
  pendingHostIPDeletes :: "string list"
  pendingIPPoolUpdates :: "(CIDR \<times> IPPool option) list"
  pendingIPPoolDeletes :: "poolItem list"
  pendingNotReady :: bool
  pendingGlobalConfig :: "rawmap option"
  pendingHostConfig :: "rawmap option"
  sentIPSets :: "string list"
  sentPolicies :: "PolicyKey list"
  sentProfiles :: "ProfileRulesKey list"
  sentEndpoints :: "Key list"
  sentHostIPs :: "string list"
  sentIPPools :: "CIDR list"

definition NewEventBuffer :: "'c \<Rightarrow> ('c, 'r) EventSequencer" where
  "NewEventBuffer conf = \<lparr>
     config = conf,
     pendingAddedIPSets = [],
     pendingRemovedIPSets = [],
     pendingAddedIPs = [],
     pendingRemovedIPs = [],
     pendingPolicyUpdates = [],
     pendingPolicyDeletes = [],
     pendingProfileUpdates = [],
     pendingProfileDeletes = [],
     pendingEndpointUpdates = [],
     pendingEndpointTierUpdates = [],
     pendingEndpointDeletes = [],
     pendingHostIPUpdates = [],
     pendingHostIPDeletes = [],
     pendingIPPoolUpdates = [],
     pendingIPPoolDeletes = [],
     pendingNotReady = False,
     pendingGlobalConfig = None,
     pendingHostConfig = None,
     sentIPSets = [],
     sentPolicies = [],
     sentProfiles = [],
     sentEndpoints = [],
     sentHostIPs = [],
     sentIPPools = [] \<rparr>"

subsection \<open>IP sets and their members\<close>

definition OnIPSetAdded :: "('c, 'r) EventSequencer \<Rightarrow> string \<Rightarrow> error + ('c, 'r) EventSequencer" where
  "OnIPSetAdded buf setID =
     (if setContains (sentIPSets buf) setID \<and> \<not> setContains (pendingRemovedIPSets buf) setID
      then Inl (Panic ''OnIPSetAdded called for existing IP set'')
      else Inr (buf\<lparr>
        pendingAddedIPSets := setAdd (pendingAddedIPSets buf) setID,
        pendingRemovedIPSets := setDiscard (pendingRemovedIPSets buf) setID,
        pendingAddedIPs := mdDiscardKey (pendingAddedIPs buf) setID,
        pendingRemovedIPs := mdDiscardKey (pendingRemovedIPs buf) setID\<rparr>))"

definition OnIPSetRemoved :: "('c, 'r) EventSequencer \<Rightarrow> string \<Rightarrow> error + ('c, 'r) EventSequencer" where
  "OnIPSetRemoved buf setID =
     (if \<not> setContains (sentIPSets buf) setID \<and> \<not> setContains (pendingAddedIPSets buf) setID
      then Inl (Panic ''IPSetRemoved called for unknown IP set'')
      else
        let buf1 = (if setContains (sentIPSets buf) setID
                    then buf\<lparr>pendingRemovedIPSets := setAdd (pendingRemovedIPSets buf) setID\<rparr>
                    else buf)
        in Inr (buf1\<lparr>
          pendingAddedIPSets := setDiscard (pendingAddedIPSets buf1) setID,
          pendingAddedIPs := mdDiscardKey (pendingAddedIPs buf1) setID,
          pendingRemovedIPs := mdDiscardKey (pendingRemovedIPs buf1) setID\<rparr>))"

definition OnIPAdded :: "('c, 'r) EventSequencer \<Rightarrow> string \<Rightarrow> Addr \<Rightarrow> error + ('c, 'r) EventSequencer" where
  "OnIPAdded buf setID ip =
     (if \<not> setContains (sentIPSets buf) setID \<and> \<not> setContains (pendingAddedIPSets buf) setID
      then Inl (Panic ''IP added to unknown IP set'')
      else if mdContains (pendingRemovedIPs buf) setID ip
      then Inr (buf\<lparr>pendingRemovedIPs := mdDiscard (pendingRemovedIPs buf) setID ip\<rparr>)
      else Inr (buf\<lparr>pendingAddedIPs := mdPut (pendingAddedIPs buf) setID ip\<rparr>))"

definition OnIPRemoved :: "('c, 'r) EventSequencer \<Rightarrow> string \<Rightarrow> Addr \<Rightarrow> error + ('c, 'r) EventSequencer" where
  "OnIPRemoved buf setID ip =
     (if \<not> setContains (sentIPSets buf) setID \<and> \<not> setContains (pendingAddedIPSets buf) setID
      then Inl (Panic ''IP removed from unknown IP set'')
      else if mdContains (pendingAddedIPs buf) setID ip
      then Inr (buf\<lparr>pendingAddedIPs := mdDiscard (pendingAddedIPs buf) setID ip\<rparr>)
      else Inr (buf\<lparr>pendingRemovedIPs := mdPut (pendingRemovedIPs buf) setID ip\<rparr>))"

text \<open>A flush function returns the state it leaves and the messages it has handed to
  \<^verbatim>\<open>Callback\<close>, in the order of the calls.\<close>

type_synonym ('c, 'r, 'p) flush =
  "('c, 'r) EventSequencer \<Rightarrow> error + (('c, 'r) EventSequencer \<times> 'p msg list)"

definition flushAddedIPSets_item :: "string \<Rightarrow> ('c, 'r, 'p) flush" where
  "flushAddedIPSets_item setID buf =
     (let members = map Addr_String (mdValues (pendingAddedIPs buf) setID)
      in Inr (buf\<lparr>
           pendingAddedIPs := mdDiscardKey (pendingAddedIPs buf) setID,
           sentIPSets := setAdd (sentIPSets buf) setID,
           pendingAddedIPSets := setDiscard (pendingAddedIPSets buf) setID\<rparr>,
         [IPSetUpdate setID members]))"

definition flushAddedIPSets :: "('c, 'r, 'p) flush" where
  "flushAddedIPSets buf = forEach flushAddedIPSets_item (pendingAddedIPSets buf) buf"

definition flushRemovedIPSets_item :: "string \<Rightarrow> ('c, 'r, 'p) flush" where
  "flushRemovedIPSets_item setID buf =
     Inr (buf\<lparr>
       pendingRemovedIPs := mdDiscardKey (pendingRemovedIPs buf) setID,
       pendingAddedIPs := mdDiscardKey (pendingAddedIPs buf) setID,
       pendingRemovedIPSets := setDiscard (pendingRemovedIPSets buf) setID,
       sentIPSets := setDiscard (sentIPSets buf) setID\<rparr>,
     [IPSetRemove setID])"

definition flushRemovedIPSets :: "('c, 'r, 'p) flush" where
  "flushRemovedIPSets buf = forEach flushRemovedIPSets_item (pendingRemovedIPSets buf) buf"

definition flushAddsOrRemoves :: "string \<Rightarrow> ('c, 'r, 'p) flush" where
  "flushAddsOrRemoves setID buf =
     (let addedMembers = map Addr_String (mdValues (pendingAddedIPs buf) setID);
          removedMembers = map Addr_String (mdValues (pendingRemovedIPs buf) setID)
      in Inr (buf\<lparr>
           pendingAddedIPs := mdDiscardKey (pendingAddedIPs buf) setID,
           pendingRemovedIPs := mdDiscardKey (pendingRemovedIPs buf) setID\<rparr>,
         [IPSetDeltaUpdate setID addedMembers removedMembers]))"

definition flushIPSetDeltas :: "('c, 'r, 'p) flush" where
  "flushIPSetDeltas buf =
     (case forEach flushAddsOrRemoves (mdKeys (pendingRemovedIPs buf)) buf of
        Inl e \<Rightarrow> Inl e
      | Inr (buf1, out1) \<Rightarrow>
          (case forEach flushAddsOrRemoves (mdKeys (pendingAddedIPs buf1)) buf1 of
             Inl e \<Rightarrow> Inl e
           | Inr (buf2, out2) \<Rightarrow> Inr (buf2, out1 @ out2)))"

subsection \<open>Readiness and configuration\<close>

definition OnDatastoreNotReady :: "('c, 'r) EventSequencer \<Rightarrow> ('c, 'r) EventSequencer" where
  "OnDatastoreNotReady buf = buf\<lparr>pendingNotReady := True\<rparr>"

definition flushReadyFlag :: "('c, 'r, 'p) flush" where
  "flushReadyFlag buf =
     (if \<not> pendingNotReady buf then Inr (buf, [])
      else Inr (buf\<lparr>pendingNotReady := False\<rparr>, [DatastoreNotReady]))"

definition OnConfigUpdate :: "('c, 'r) EventSequencer \<Rightarrow> rawmap option \<Rightarrow> rawmap option
    \<Rightarrow> ('c, 'r) EventSequencer" where
  "OnConfigUpdate buf globalConfig hostConfig =
     buf\<lparr>pendingGlobalConfig := globalConfig, pendingHostConfig := hostConfig\<rparr>"

definition flushConfigUpdate :: "('c, 'r, 'p) externals \<Rightarrow> ('c, 'r, 'p) flush" where
  "flushConfigUpdate ext buf =
     (if pendingGlobalConfig buf = None then Inr (buf, [])
      else
        case UpdateFrom ext (config buf) (pendingGlobalConfig buf) DatastoreGlobal of
          Inl err \<Rightarrow> Inl (Fatal ''Failed to parse config update'')
        | Inr (globalChanged, conf1) \<Rightarrow>
            (case UpdateFrom ext conf1 (pendingHostConfig buf) DatastorePerHost of
               Inl err \<Rightarrow> Inl (Fatal ''Failed to parse config update'')
             | Inr (hostChanged, conf2) \<Rightarrow>
                 Inr (buf\<lparr>config := conf2, pendingGlobalConfig := None,
                          pendingHostConfig := None\<rparr>,
                      if globalChanged \<or> hostChanged
                      then [ConfigUpdate (RawValues ext conf2)] else [])))"

subsection \<open>Policies and profiles\<close>

text \<open>The rules are a pointer that the flush dereferences: nil (\<open>None\<close>) panics there.\<close>

definition OnPolicyActive :: "('c, 'r) EventSequencer \<Rightarrow> PolicyKey \<Rightarrow> 'r ParsedRules option
    \<Rightarrow> ('c, 'r) EventSequencer" where
  "OnPolicyActive buf key rules =
     buf\<lparr>pendingPolicyDeletes := setDiscard (pendingPolicyDeletes buf) key,
         pendingPolicyUpdates := AList.update key rules (pendingPolicyUpdates buf)\<rparr>"

definition flushPolicyUpdates_item :: "('c, 'r, 'p) externals
    \<Rightarrow> PolicyKey \<times> 'r ParsedRules option \<Rightarrow> ('c, 'r, 'p) flush" where
  "flushPolicyUpdates_item ext entry buf =
     (case entry of
        (key, None) \<Rightarrow> Inl (Panic ''nil pointer dereference'')
      | (key, Some rules) \<Rightarrow>
          Inr (buf\<lparr>sentPolicies := setAdd (sentPolicies buf) key,
                   pendingPolicyUpdates := AList.delete key (pendingPolicyUpdates buf)\<rparr>,
               [ActivePolicyUpdate (proto_PolicyID ''default'' (pk_Name key))
                  (proto_Policy
                     (parsedRulesToProtoRules ext (pr_InboundRules rules)
                        (''pol-in-default/'' @ pk_Name key))
                     (parsedRulesToProtoRules ext (pr_OutboundRules rules)
                        (''pol-out-default/'' @ pk_Name key))
                     (pr_Untracked rules))]))"

definition flushPolicyUpdates :: "('c, 'r, 'p) externals \<Rightarrow> ('c, 'r, 'p) flush" where
  "flushPolicyUpdates ext buf =
     forEach (flushPolicyUpdates_item ext) (pendingPolicyUpdates buf) buf"

definition OnPolicyInactive :: "('c, 'r) EventSequencer \<Rightarrow> PolicyKey \<Rightarrow> ('c, 'r) EventSequencer" where
  "OnPolicyInactive buf key =
     (let buf1 = buf\<lparr>pendingPolicyUpdates := AList.delete key (pendingPolicyUpdates buf)\<rparr>
      in if setContains (sentPolicies buf1) key
         then buf1\<lparr>pendingPolicyDeletes := setAdd (pendingPolicyDeletes buf1) key\<rparr>
         else buf1)"

definition flushPolicyDeletes_item :: "PolicyKey \<Rightarrow> ('c, 'r, 'p) flush" where
  "flushPolicyDeletes_item item buf =
     Inr (buf\<lparr>sentPolicies := setDiscard (sentPolicies buf) item,
              pendingPolicyDeletes := setDiscard (pendingPolicyDeletes buf) item\<rparr>,
          [ActivePolicyRemove (proto_PolicyID ''default'' (pk_Name item))])"

definition flushPolicyDeletes :: "('c, 'r, 'p) flush" where
  "flushPolicyDeletes buf = forEach flushPolicyDeletes_item (pendingPolicyDeletes buf) buf"

definition OnProfileActive :: "('c, 'r) EventSequencer \<Rightarrow> ProfileRulesKey
    \<Rightarrow> 'r ParsedRules option \<Rightarrow> ('c, 'r) EventSequencer" where
  "OnProfileActive buf key rules =
     buf\<lparr>pendingProfileDeletes := setDiscard (pendingProfileDeletes buf) key,
         pendingProfileUpdates := AList.update key rules (pendingProfileUpdates buf)\<rparr>"

definition flushProfileUpdates_item :: "('c, 'r, 'p) externals
    \<Rightarrow> ProfileRulesKey \<times> 'r ParsedRules option \<Rightarrow> ('c, 'r, 'p) flush" where
  "flushProfileUpdates_item ext entry buf =
     (case entry of
        (key, None) \<Rightarrow> Inl (Panic ''nil pointer dereference'')
      | (key, Some rules) \<Rightarrow>
          Inr (buf\<lparr>sentProfiles := setAdd (sentProfiles buf) key,
                   pendingProfileUpdates := AList.delete key (pendingProfileUpdates buf)\<rparr>,
               [ActiveProfileUpdate (proto_ProfileID (prk_Name key))
                  (proto_Profile
                     (parsedRulesToProtoRules ext (pr_InboundRules rules)
                        (''prof-in-'' @ prk_Name key))
                     (parsedRulesToProtoRules ext (pr_OutboundRules rules)
                        (''prof-out-'' @ prk_Name key)))]))"

definition flushProfileUpdates :: "('c, 'r, 'p) externals \<Rightarrow> ('c, 'r, 'p) flush" where
  "flushProfileUpdates ext buf =
     forEach (flushProfileUpdates_item ext) (pendingProfileUpdates buf) buf"

definition OnProfileInactive :: "('c, 'r) EventSequencer \<Rightarrow> ProfileRulesKey
    \<Rightarrow> ('c, 'r) EventSequencer" where
  "OnProfileInactive buf key =
     (let buf1 = buf\<lparr>pendingProfileUpdates := AList.delete key (pendingProfileUpdates buf)\<rparr>
      in if setContains (sentProfiles buf1) key
         then buf1\<lparr>pendingProfileDeletes := setAdd (pendingProfileDeletes buf1) key\<rparr>
         else buf1)"

definition flushProfileDeletes_item :: "ProfileRulesKey \<Rightarrow> ('c, 'r, 'p) flush" where
  "flushProfileDeletes_item item buf =
     Inr (buf\<lparr>sentProfiles := setDiscard (sentProfiles buf) item,
              pendingProfileDeletes := setDiscard (pendingProfileDeletes buf) item\<rparr>,
          [ActiveProfileRemove (proto_ProfileID (prk_Name item))])"

definition flushProfileDeletes :: "('c, 'r, 'p) flush" where
  "flushProfileDeletes buf = forEach flushProfileDeletes_item (pendingProfileDeletes buf) buf"

subsection \<open>Endpoints\<close>

definition netsToStrings :: "IPNet list \<Rightarrow> string list" where
  "netsToStrings nets = map IPNet_String nets"

definition ipsToStrings :: "IP list \<Rightarrow> string list" where
  "ipsToStrings ips = map IP_String ips"

definition natsToProtoNatInfo :: "IPNAT list \<Rightarrow> proto_NatInfo list" where
  "natsToProtoNatInfo nats =
     map (\<lambda>nat. proto_NatInfo (IP_String (nat_ExtIP nat)) (IP_String (nat_IntIP nat))) nats"

text \<open>\<^verbatim>\<open>tierInfoToProtoTierInfo\<close>: both loops append, in the order of the slices. A nil
  slice and an empty one are both \<open>[]\<close>.\<close>

definition splitPolicies :: "PolKV list \<Rightarrow> string list \<times> string list" where
  "splitPolicies pols =
     fold (\<lambda>pol (trackedPols, untrackedPols).
             if pol_DoNotTrack (kv_Value pol)
             then (trackedPols, untrackedPols @ [pk_Name (kv_Key pol)])
             else (trackedPols @ [pk_Name (kv_Key pol)], untrackedPols))
          pols ([], [])"

definition tierInfoToProtoTierInfo :: "tierInfo list \<Rightarrow> proto_TierInfo list \<times> proto_TierInfo list" where
  "tierInfoToProtoTierInfo filteredTiers =
     (if length filteredTiers > 0
      then fold (\<lambda>ti (trackedTiers, untrackedTiers).
                   case splitPolicies (ti_OrderedPolicies ti) of
                     (trackedPols, untrackedPols) \<Rightarrow>
                       ((if length trackedPols > 0
                         then trackedTiers @ [proto_TierInfo (ti_Name ti) trackedPols]
                         else trackedTiers),
                        (if length untrackedPols > 0
                         then untrackedTiers @ [proto_TierInfo (ti_Name ti) untrackedPols]
                         else untrackedTiers)))
                filteredTiers ([], [])
      else ([], []))"

definition ModelWorkloadEndpointToProto :: "WorkloadEndpoint \<Rightarrow> proto_TierInfo list
    \<Rightarrow> proto_WorkloadEndpoint" where
  "ModelWorkloadEndpointToProto ep tiers =
     (let mac = (case wep_Mac ep of None \<Rightarrow> [] | Some m \<Rightarrow> MAC_String m)
      in proto_WorkloadEndpoint (wep_State ep) (wep_Name ep) mac (wep_ProfileIDs ep)
           (netsToStrings (wep_IPv4Nets ep)) (netsToStrings (wep_IPv6Nets ep)) tiers
           (natsToProtoNatInfo (wep_IPv4NAT ep)) (natsToProtoNatInfo (wep_IPv6NAT ep)))"

definition ModelHostEndpointToProto :: "HostEndpoint \<Rightarrow> proto_TierInfo list
    \<Rightarrow> proto_TierInfo list \<Rightarrow> proto_HostEndpoint" where
  "ModelHostEndpointToProto ep tiers untrackedTiers =
     proto_HostEndpoint (hep_Name ep) (ipsToStrings (hep_ExpectedIPv4Addrs ep))
       (ipsToStrings (hep_ExpectedIPv6Addrs ep)) (hep_ProfileIDs ep) tiers untrackedTiers"

definition OnEndpointTierUpdate :: "('c, 'r) EventSequencer \<Rightarrow> Key \<Rightarrow> Endpoint option
    \<Rightarrow> tierInfo list \<Rightarrow> ('c, 'r) EventSequencer" where
  "OnEndpointTierUpdate buf key endpoint filteredTiers =
     (case endpoint of
        None \<Rightarrow>
          (let buf1 = buf\<lparr>
                 pendingEndpointUpdates := AList.delete key (pendingEndpointUpdates buf),
                 pendingEndpointTierUpdates := AList.delete key (pendingEndpointTierUpdates buf)\<rparr>
           in if setContains (sentEndpoints buf1) key
              then buf1\<lparr>pendingEndpointDeletes := setAdd (pendingEndpointDeletes buf1) key\<rparr>
              else buf1)
      | Some ep \<Rightarrow>
          buf\<lparr>pendingEndpointDeletes := setDiscard (pendingEndpointDeletes buf) key,
              pendingEndpointUpdates := AList.update key ep (pendingEndpointUpdates buf),
              pendingEndpointTierUpdates :=
                AList.update key filteredTiers (pendingEndpointTierUpdates buf)\<rparr>)"

text \<open>One round of the loop of \<^verbatim>\<open>flushEndpointTierUpdates\<close>. The type assertions on the
  endpoint panic when the endpoint is not of the kind of its key; a key that is neither
  kind of endpoint key emits nothing and is still recorded as sent. A key without an entry
  in \<^verbatim>\<open>pendingEndpointTierUpdates\<close> reads the nil slice.\<close>

definition flushEndpointTierUpdates_item :: "Key \<times> Endpoint \<Rightarrow> ('c, 'r, 'p) flush" where
  "flushEndpointTierUpdates_item entry buf =
     (case entry of (key, endpoint) \<Rightarrow>
        (case tierInfoToProtoTierInfo
                (case map_of (pendingEndpointTierUpdates buf) key of
                   None \<Rightarrow> [] | Some ts \<Rightarrow> ts) of
           (tiers, untrackedTiers) \<Rightarrow>
             (case (case key of
                      WorkloadEndpointKey hostname orchestratorID workloadID endpointID \<Rightarrow>
                        (case endpoint of
                           WorkloadEndpointOf wlep \<Rightarrow>
                             Inr [WorkloadEndpointUpdate
                                    (proto_WorkloadEndpointID orchestratorID workloadID endpointID)
                                    (ModelWorkloadEndpointToProto wlep tiers)]
                         | _ \<Rightarrow> Inl (Panic ''interface conversion''))
                    | HostEndpointKey hostname endpointID \<Rightarrow>
                        (case endpoint of
                           HostEndpointOf hep \<Rightarrow>
                             Inr [HostEndpointUpdate (proto_HostEndpointID endpointID)
                                    (ModelHostEndpointToProto hep tiers untrackedTiers)]
                         | _ \<Rightarrow> Inl (Panic ''interface conversion''))
                    | _ \<Rightarrow> Inr []) of
                Inl e \<Rightarrow> Inl e
              | Inr out \<Rightarrow>
                  Inr (buf\<lparr>
                         sentEndpoints := setAdd (sentEndpoints buf) key,
                         pendingEndpointUpdates := AList.delete key (pendingEndpointUpdates buf),
                         pendingEndpointTierUpdates :=
                           AList.delete key (pendingEndpointTierUpdates buf)\<rparr>,
                       out))))"

definition flushEndpointTierUpdates :: "('c, 'r, 'p) flush" where
  "flushEndpointTierUpdates buf =
     forEach flushEndpointTierUpdates_item (pendingEndpointUpdates buf) buf"

definition flushEndpointTierDeletes_item :: "Key \<Rightarrow> ('c, 'r, 'p) flush" where
  "flushEndpointTierDeletes_item item buf =
     Inr (buf\<lparr>sentEndpoints := setDiscard (sentEndpoints buf) item,
              pendingEndpointDeletes := setDiscard (pendingEndpointDeletes buf) item\<rparr>,
          (case item of
             WorkloadEndpointKey hostname orchestratorID workloadID endpointID \<Rightarrow>
               [WorkloadEndpointRemove
                  (proto_WorkloadEndpointID orchestratorID workloadID endpointID)]
           | HostEndpointKey hostname endpointID \<Rightarrow>
               [HostEndpointRemove (proto_HostEndpointID endpointID)]
           | _ \<Rightarrow> []))"

definition flushEndpointTierDeletes :: "('c, 'r, 'p) flush" where
  "flushEndpointTierDeletes buf =
     forEach flushEndpointTierDeletes_item (pendingEndpointDeletes buf) buf"

subsection \<open>Host IPs and IP pools\<close>

definition OnHostIPUpdate :: "('c, 'r) EventSequencer \<Rightarrow> string \<Rightarrow> IP option
    \<Rightarrow> ('c, 'r) EventSequencer" where
  "OnHostIPUpdate buf hostname ip =
     buf\<lparr>pendingHostIPDeletes := setDiscard (pendingHostIPDeletes buf) hostname,
         pendingHostIPUpdates := AList.update hostname ip (pendingHostIPUpdates buf)\<rparr>"

definition flushHostIPUpdates_item :: "string \<times> IP option \<Rightarrow> ('c, 'r, 'p) flush" where
  "flushHostIPUpdates_item entry buf =
     (case entry of
        (hostname, None) \<Rightarrow> Inl (Panic ''nil pointer dereference'')
      | (hostname, Some hostIP) \<Rightarrow>
          Inr (buf\<lparr>sentHostIPs := setAdd (sentHostIPs buf) hostname,
                   pendingHostIPUpdates := AList.delete hostname (pendingHostIPUpdates buf)\<rparr>,
               [HostMetadataUpdate hostname (IP_String hostIP)]))"

definition flushHostIPUpdates :: "('c, 'r, 'p) flush" where
  "flushHostIPUpdates buf = forEach flushHostIPUpdates_item (pendingHostIPUpdates buf) buf"

definition OnHostIPRemove :: "('c, 'r) EventSequencer \<Rightarrow> string \<Rightarrow> ('c, 'r) EventSequencer" where
  "OnHostIPRemove buf hostname =
     (let buf1 = buf\<lparr>pendingHostIPUpdates := AList.delete hostname (pendingHostIPUpdates buf)\<rparr>
      in if setContains (sentHostIPs buf1) hostname
         then buf1\<lparr>pendingHostIPDeletes := setAdd (pendingHostIPDeletes buf1) hostname\<rparr>
         else buf1)"

definition flushHostIPDeletes_item :: "string \<Rightarrow> ('c, 'r, 'p) flush" where
  "flushHostIPDeletes_item item buf =
     Inr (buf\<lparr>sentHostIPs := setDiscard (sentHostIPs buf) item,
              pendingHostIPDeletes := setDiscard (pendingHostIPDeletes buf) item\<rparr>,
          [HostMetadataRemove item])"

definition flushHostIPDeletes :: "('c, 'r, 'p) flush" where
  "flushHostIPDeletes buf = forEach flushHostIPDeletes_item (pendingHostIPDeletes buf) buf"

text \<open>\<^verbatim>\<open>strings.Replace(s, "/", "-", 1)\<close> replaces the first slash.\<close>

fun replaceFirstSlash :: "string \<Rightarrow> string" where
  "replaceFirstSlash [] = []"
| "replaceFirstSlash (c # cs) = (if c = CHR ''/'' then CHR ''-'' # cs else c # replaceFirstSlash cs)"

definition cidrToIPPoolID :: "CIDR \<Rightarrow> string" where
  "cidrToIPPoolID cidr = replaceFirstSlash (CIDR_String cidr)"

text \<open>\<^verbatim>\<open>OnIPPoolUpdate\<close> discards the pool key itself from \<^verbatim>\<open>pendingIPPoolDeletes\<close>, not
  the CIDR made from it; discarding an item that a set does not hold leaves the set as it
  is.\<close>

definition OnIPPoolUpdate :: "('c, 'r, 'p) externals \<Rightarrow> ('c, 'r) EventSequencer \<Rightarrow> IPPoolKey
    \<Rightarrow> IPPool option \<Rightarrow> ('c, 'r) EventSequencer" where
  "OnIPPoolUpdate ext buf key pool =
     (let buf1 = buf\<lparr>pendingIPPoolDeletes :=
                       setDiscard (pendingIPPoolDeletes buf) (IPPoolKeyItem key)\<rparr>;
          cidr = CIDRFromCalicoNet ext (ipk_CIDR key)
      in buf1\<lparr>pendingIPPoolUpdates := AList.update cidr pool (pendingIPPoolUpdates buf1)\<rparr>)"

definition flushIPPoolUpdates_item :: "CIDR \<times> IPPool option \<Rightarrow> ('c, 'r, 'p) flush" where
  "flushIPPoolUpdates_item entry buf =
     (case entry of
        (key, None) \<Rightarrow> Inl (Panic ''nil pointer dereference'')
      | (key, Some pool) \<Rightarrow>
          Inr (buf\<lparr>sentIPPools := setAdd (sentIPPools buf) key,
                   pendingIPPoolUpdates := AList.delete key (pendingIPPoolUpdates buf)\<rparr>,
               [IPAMPoolUpdate (cidrToIPPoolID key)
                  (proto_IPAMPool (IPNet_String (pool_CIDR pool)) (pool_Masquerade pool))]))"

definition flushIPPoolUpdates :: "('c, 'r, 'p) flush" where
  "flushIPPoolUpdates buf = forEach flushIPPoolUpdates_item (pendingIPPoolUpdates buf) buf"

definition OnIPPoolRemove :: "('c, 'r, 'p) externals \<Rightarrow> ('c, 'r) EventSequencer \<Rightarrow> IPPoolKey
    \<Rightarrow> ('c, 'r) EventSequencer" where
  "OnIPPoolRemove ext buf key =
     (let cidr = CIDRFromCalicoNet ext (ipk_CIDR key);
          buf1 = buf\<lparr>pendingIPPoolUpdates := AList.delete cidr (pendingIPPoolUpdates buf)\<rparr>
      in if setContains (sentIPPools buf1) cidr
         then buf1\<lparr>pendingIPPoolDeletes := setAdd (pendingIPPoolDeletes buf1) (CIDRItem cidr)\<rparr>
         else buf1)"

text \<open>The type assertion \<^verbatim>\<open>item.(ip.CIDR)\<close> panics on an item of the other type.\<close>

definition flushIPPoolDeletes_item :: "poolItem \<Rightarrow> ('c, 'r, 'p) flush" where
  "flushIPPoolDeletes_item item buf =
     (case item of
        IPPoolKeyItem k \<Rightarrow> Inl (Panic ''interface conversion'')
      | CIDRItem key \<Rightarrow>
          Inr (buf\<lparr>sentIPPools := setDiscard (sentIPPools buf) key,
                   pendingIPPoolDeletes := setDiscard (pendingIPPoolDeletes buf) item\<rparr>,
               [IPAMPoolRemove (cidrToIPPoolID key)]))"

definition flushIPPoolDeletes :: "('c, 'r, 'p) flush" where
  "flushIPPoolDeletes buf = forEach flushIPPoolDeletes_item (pendingIPPoolDeletes buf) buf"

subsection \<open>Flush\<close>

definition Flush :: "('c, 'r, 'p) externals \<Rightarrow> ('c, 'r, 'p) flush" where
  "Flush ext buf =
     forEach (\<lambda>flush. flush)
       [flushReadyFlag,
        flushConfigUpdate ext,
        flushAddedIPSets,
        flushIPSetDeltas,
        flushPolicyUpdates ext,
        flushProfileUpdates ext,
        flushEndpointTierUpdates,
        flushEndpointTierDeletes,
        flushProfileDeletes,
        flushPolicyDeletes,
        flushRemovedIPSets,
        flushHostIPDeletes,
        flushHostIPUpdates,
        flushIPPoolDeletes,
        flushIPPoolUpdates]
       buf"

subsection \<open>Runs of the sequencer\<close>

text \<open>The calls that the calculation graph and the owner of the sequencer make.\<close>

datatype 'r call =
    CallOnIPSetAdded string
  | CallOnIPSetRemoved string
  | CallOnIPAdded string Addr
  | CallOnIPRemoved string Addr
  | CallOnDatastoreNotReady
  | CallOnConfigUpdate "rawmap option" "rawmap option"
  | CallOnPolicyActive PolicyKey "'r ParsedRules option"
  | CallOnPolicyInactive PolicyKey
  | CallOnProfileActive ProfileRulesKey "'r ParsedRules option"
  | CallOnProfileInactive ProfileRulesKey
  | CallOnEndpointTierUpdate Key "Endpoint option" "tierInfo list"
  | CallOnHostIPUpdate string "IP option"
  | CallOnHostIPRemove string
  | CallOnIPPoolUpdate IPPoolKey "IPPool option"
  | CallOnIPPoolRemove IPPoolKey
  | CallFlush

definition quiet :: "error + 's \<Rightarrow> error + ('s \<times> 'm list)" where
  "quiet r = (case r of Inl e \<Rightarrow> Inl e | Inr s \<Rightarrow> Inr (s, []))"

fun step :: "('c, 'r, 'p) externals \<Rightarrow> ('c, 'r) EventSequencer \<Rightarrow> 'r call
    \<Rightarrow> error + (('c, 'r) EventSequencer \<times> 'p msg list)" where
  "step ext buf (CallOnIPSetAdded setID) = quiet (OnIPSetAdded buf setID)"
| "step ext buf (CallOnIPSetRemoved setID) = quiet (OnIPSetRemoved buf setID)"
| "step ext buf (CallOnIPAdded setID ip) = quiet (OnIPAdded buf setID ip)"
| "step ext buf (CallOnIPRemoved setID ip) = quiet (OnIPRemoved buf setID ip)"
| "step ext buf CallOnDatastoreNotReady = Inr (OnDatastoreNotReady buf, [])"
| "step ext buf (CallOnConfigUpdate g h) = Inr (OnConfigUpdate buf g h, [])"
| "step ext buf (CallOnPolicyActive key rules) = Inr (OnPolicyActive buf key rules, [])"
| "step ext buf (CallOnPolicyInactive key) = Inr (OnPolicyInactive buf key, [])"
| "step ext buf (CallOnProfileActive key rules) = Inr (OnProfileActive buf key rules, [])"
| "step ext buf (CallOnProfileInactive key) = Inr (OnProfileInactive buf key, [])"
| "step ext buf (CallOnEndpointTierUpdate key ep tiers) =
     Inr (OnEndpointTierUpdate buf key ep tiers, [])"
| "step ext buf (CallOnHostIPUpdate hostname ip) = Inr (OnHostIPUpdate buf hostname ip, [])"
| "step ext buf (CallOnHostIPRemove hostname) = Inr (OnHostIPRemove buf hostname, [])"
| "step ext buf (CallOnIPPoolUpdate key pool) = Inr (OnIPPoolUpdate ext buf key pool, [])"
| "step ext buf (CallOnIPPoolRemove key) = Inr (OnIPPoolRemove ext buf key, [])"
| "step ext buf CallFlush = Flush ext buf"

text \<open>The states that a sequencer made by \<^verbatim>\<open>NewEventBuffer\<close> goes through, as long as no
  call aborts.\<close>

inductive reachable :: "('c, 'r, 'p) externals \<Rightarrow> ('c, 'r) EventSequencer \<Rightarrow> bool"
  for ext :: "('c, 'r, 'p) externals" where
  reachable_new: "reachable ext (NewEventBuffer conf)"
| reachable_step: "reachable ext buf \<Longrightarrow> step ext buf c = Inr (buf', out) \<Longrightarrow> reachable ext buf'"

section \<open>Notions used by the properties\<close>

text \<open>The flush functions in the order in which \<^const>\<open>Flush\<close> calls them.\<close>

definition flushPhases :: "('c, 'r, 'p) externals \<Rightarrow> ('c, 'r, 'p) flush list" where
  "flushPhases ext =
     [flushReadyFlag, flushConfigUpdate ext, flushAddedIPSets, flushIPSetDeltas,
      flushPolicyUpdates ext, flushProfileUpdates ext, flushEndpointTierUpdates,
      flushEndpointTierDeletes, flushProfileDeletes, flushPolicyDeletes, flushRemovedIPSets,
      flushHostIPDeletes, flushHostIPUpdates, flushIPPoolDeletes, flushIPPoolUpdates]"


text \<open>The IP set that a message is about.\<close>

fun msgIPSetID :: "'p msg \<Rightarrow> string option" where
  "msgIPSetID (IPSetUpdate setID _) = Some setID"
| "msgIPSetID (IPSetDeltaUpdate setID _ _) = Some setID"
| "msgIPSetID (IPSetRemove setID) = Some setID"
| "msgIPSetID _ = None"

text \<open>The messages that a flush emits for an endpoint key: an update or a remove that
  carries the identifiers of the key.\<close>

fun endpointMsgOf :: "Key \<Rightarrow> 'p msg \<Rightarrow> bool" where
  "endpointMsgOf (WorkloadEndpointKey h orch w e) (WorkloadEndpointUpdate i _) =
     (i = proto_WorkloadEndpointID orch w e)"
| "endpointMsgOf (WorkloadEndpointKey h orch w e) (WorkloadEndpointRemove i) =
     (i = proto_WorkloadEndpointID orch w e)"
| "endpointMsgOf (HostEndpointKey h e) (HostEndpointUpdate i _) = (i = proto_HostEndpointID e)"
| "endpointMsgOf (HostEndpointKey h e) (HostEndpointRemove i) = (i = proto_HostEndpointID e)"
| "endpointMsgOf _ _ = False"

text \<open>A sequencer with nothing left to flush: every buffer that a flush function reads
  is empty.\<close>

definition drained :: "('c, 'r) EventSequencer \<Rightarrow> bool" where
  "drained buf \<longleftrightarrow>
     \<not> pendingNotReady buf \<and> pendingGlobalConfig buf = None
     \<and> pendingAddedIPSets buf = [] \<and> pendingRemovedIPs buf = [] \<and> pendingAddedIPs buf = []
     \<and> pendingPolicyUpdates buf = [] \<and> pendingProfileUpdates buf = []
     \<and> pendingEndpointUpdates buf = [] \<and> pendingEndpointDeletes buf = []
     \<and> pendingProfileDeletes buf = [] \<and> pendingPolicyDeletes buf = []
     \<and> pendingRemovedIPSets buf = []
     \<and> pendingHostIPDeletes buf = [] \<and> pendingHostIPUpdates buf = []
     \<and> pendingIPPoolDeletes buf = [] \<and> pendingIPPoolUpdates buf = []"

text \<open>\<open>shrinks s t\<close>: no pending buffer of \<open>t\<close> holds anything that the same buffer of
  \<open>s\<close> does not hold.\<close>

definition shrinks :: "('c, 'r) EventSequencer \<Rightarrow> ('c, 'r) EventSequencer \<Rightarrow> bool" where
  "shrinks s t \<longleftrightarrow>
     (pendingNotReady t \<longrightarrow> pendingNotReady s)
     \<and> (pendingGlobalConfig s = None \<longrightarrow> pendingGlobalConfig t = None)
     \<and> set (pendingAddedIPSets t) \<subseteq> set (pendingAddedIPSets s)
     \<and> set (pendingRemovedIPs t) \<subseteq> set (pendingRemovedIPs s)
     \<and> set (pendingAddedIPs t) \<subseteq> set (pendingAddedIPs s)
     \<and> set (pendingPolicyUpdates t) \<subseteq> set (pendingPolicyUpdates s)
     \<and> set (pendingProfileUpdates t) \<subseteq> set (pendingProfileUpdates s)
     \<and> set (pendingEndpointUpdates t) \<subseteq> set (pendingEndpointUpdates s)
     \<and> set (pendingEndpointTierUpdates t) \<subseteq> set (pendingEndpointTierUpdates s)
     \<and> set (pendingEndpointDeletes t) \<subseteq> set (pendingEndpointDeletes s)
     \<and> set (pendingProfileDeletes t) \<subseteq> set (pendingProfileDeletes s)
     \<and> set (pendingPolicyDeletes t) \<subseteq> set (pendingPolicyDeletes s)
     \<and> set (pendingRemovedIPSets t) \<subseteq> set (pendingRemovedIPSets s)
     \<and> set (pendingHostIPDeletes t) \<subseteq> set (pendingHostIPDeletes s)
     \<and> set (pendingHostIPUpdates t) \<subseteq> set (pendingHostIPUpdates s)
     \<and> set (pendingIPPoolDeletes t) \<subseteq> set (pendingIPPoolDeletes s)
     \<and> set (pendingIPPoolUpdates t) \<subseteq> set (pendingIPPoolUpdates s)"

text \<open>An IP set that has nothing pending: it is in neither pending set and is no key of
  the pending IPs.\<close>

definition ipSetQuiet :: "string \<Rightarrow> ('c, 'r) EventSequencer \<Rightarrow> bool" where
  "ipSetQuiet setID buf \<longleftrightarrow>
     setID \<notin> set (pendingAddedIPSets buf) \<and> setID \<notin> fst ` set (pendingAddedIPs buf)
     \<and> setID \<notin> fst ` set (pendingRemovedIPs buf) \<and> setID \<notin> set (pendingRemovedIPSets buf)"

text \<open>The split of the policies of a tier in the words of the specification: the names
  of the policies without the do-not-track flag, in order, and the names of those with it;
  a tier appears in a list when it has a name to show there.\<close>

definition trackedNames :: "tierInfo \<Rightarrow> string list" where
  "trackedNames ti =
     map (\<lambda>pol. pk_Name (kv_Key pol))
       (filter (\<lambda>pol. \<not> pol_DoNotTrack (kv_Value pol)) (ti_OrderedPolicies ti))"

definition untrackedNames :: "tierInfo \<Rightarrow> string list" where
  "untrackedNames ti =
     map (\<lambda>pol. pk_Name (kv_Key pol))
       (filter (\<lambda>pol. pol_DoNotTrack (kv_Value pol)) (ti_OrderedPolicies ti))"

definition spec_trackedTiers :: "tierInfo list \<Rightarrow> proto_TierInfo list" where
  "spec_trackedTiers tiers =
     map (\<lambda>ti. proto_TierInfo (ti_Name ti) (trackedNames ti))
       (filter (\<lambda>ti. trackedNames ti \<noteq> []) tiers)"

definition spec_untrackedTiers :: "tierInfo list \<Rightarrow> proto_TierInfo list" where
  "spec_untrackedTiers tiers =
     map (\<lambda>ti. proto_TierInfo (ti_Name ti) (untrackedNames ti))
       (filter (\<lambda>ti. untrackedNames ti \<noteq> []) tiers)"

text \<open>The tiers and the untracked tiers that a message carries; a message without the
  field carries none.\<close>

fun msgTiers :: "'p msg \<Rightarrow> proto_TierInfo list" where
  "msgTiers (WorkloadEndpointUpdate _ ep) = pw_Tiers ep"
| "msgTiers (HostEndpointUpdate _ ep) = ph_Tiers ep"
| "msgTiers _ = []"

fun msgUntrackedTiers :: "'p msg \<Rightarrow> proto_TierInfo list" where
  "msgUntrackedTiers (HostEndpointUpdate _ ep) = ph_UntrackedTiers ep"
| "msgUntrackedTiers _ = []"

text \<open>The consistency of the pending buffers, one category at a time: nothing is pending
  both as an add or update and as a delete, and what is pending as a delete has been sent.
  For the IP sets, the pending IPs moreover belong to sets that are sent or pending-added.\<close>

definition ipSetsConsistent :: "('c, 'r) EventSequencer \<Rightarrow> bool" where
  "ipSetsConsistent buf \<longleftrightarrow>
     set (pendingAddedIPSets buf) \<inter> set (pendingRemovedIPSets buf) = {}
     \<and> set (pendingAddedIPs buf) \<inter> set (pendingRemovedIPs buf) = {}
     \<and> set (pendingRemovedIPSets buf) \<subseteq> set (sentIPSets buf)
     \<and> fst ` set (pendingAddedIPs buf) \<subseteq> set (sentIPSets buf) \<union> set (pendingAddedIPSets buf)
     \<and> fst ` set (pendingRemovedIPs buf) \<subseteq> set (sentIPSets buf) \<union> set (pendingAddedIPSets buf)"

definition policiesConsistent :: "('c, 'r) EventSequencer \<Rightarrow> bool" where
  "policiesConsistent buf \<longleftrightarrow>
     fst ` set (pendingPolicyUpdates buf) \<inter> set (pendingPolicyDeletes buf) = {}
     \<and> set (pendingPolicyDeletes buf) \<subseteq> set (sentPolicies buf)"

definition profilesConsistent :: "('c, 'r) EventSequencer \<Rightarrow> bool" where
  "profilesConsistent buf \<longleftrightarrow>
     fst ` set (pendingProfileUpdates buf) \<inter> set (pendingProfileDeletes buf) = {}
     \<and> set (pendingProfileDeletes buf) \<subseteq> set (sentProfiles buf)"

definition endpointsConsistent :: "('c, 'r) EventSequencer \<Rightarrow> bool" where
  "endpointsConsistent buf \<longleftrightarrow>
     fst ` set (pendingEndpointUpdates buf) \<inter> set (pendingEndpointDeletes buf) = {}
     \<and> fst ` set (pendingEndpointTierUpdates buf) \<inter> set (pendingEndpointDeletes buf) = {}
     \<and> set (pendingEndpointDeletes buf) \<subseteq> set (sentEndpoints buf)"

definition hostIPsConsistent :: "('c, 'r) EventSequencer \<Rightarrow> bool" where
  "hostIPsConsistent buf \<longleftrightarrow>
     fst ` set (pendingHostIPUpdates buf) \<inter> set (pendingHostIPDeletes buf) = {}
     \<and> set (pendingHostIPDeletes buf) \<subseteq> set (sentHostIPs buf)"

definition poolDeletesSent :: "('c, 'r) EventSequencer \<Rightarrow> bool" where
  "poolDeletesSent buf \<longleftrightarrow>
     set (pendingIPPoolDeletes buf) \<subseteq> CIDRItem ` set (sentIPPools buf)"

definition poolsDisjoint :: "('c, 'r) EventSequencer \<Rightarrow> bool" where
  "poolsDisjoint buf \<longleftrightarrow>
     CIDRItem ` fst ` set (pendingIPPoolUpdates buf) \<inter> set (pendingIPPoolDeletes buf) = {}"

text \<open>A run: a list of calls made one after the other, with the messages of its flushes.\<close>

definition run :: "('c, 'r, 'p) externals \<Rightarrow> 'r call list \<Rightarrow> ('c, 'r) EventSequencer
    \<Rightarrow> error + (('c, 'r) EventSequencer \<times> 'p msg list)" where
  "run ext calls buf = forEach (\<lambda>c b. step ext b c) calls buf"

section \<open>Example inputs\<close>

text \<open>A configuration object that appends what it is given and reports a change when it
  is given something, a rule conversion that prefixes the rule with the chain name, and the
  CIDR with the text of the network.\<close>

definition exampleExternals :: "(rawmap, string, string) externals" where
  "exampleExternals = \<lparr>
     UpdateFrom = (\<lambda>conf m src. case m of None \<Rightarrow> Inr (False, conf)
                                   | Some kvs \<Rightarrow> Inr (kvs \<noteq> [], conf @ kvs)),
     RawValues = (\<lambda>conf. conf),
     parsedRulesToProtoRules = (\<lambda>rules prefix. map (\<lambda>r. prefix @ r) rules),
     CIDRFromCalicoNet = (\<lambda>n. CIDR (IPNet_String n)) \<rparr>"

definition exampleWorkload :: WorkloadEndpoint where
  "exampleWorkload =
     WorkloadEndpoint ''active'' ''eth0'' None [''prof''] [IPNet ''10.0.0.1/32''] [] [] []"

definition exampleHost :: HostEndpoint where
  "exampleHost = HostEndpoint ''eth1'' [IP ''192.168.0.1''] [] [''prof'']"

definition exampleTiers :: "tierInfo list" where
  "exampleTiers = [tierInfo ''default'' True None []
     [PolKV (PolicyKey ''A'') (Policy (Some 10) False),
      PolKV (PolicyKey ''U'') (Policy (Some 20) True)]]"

definition exampleBuf :: "(rawmap, string) EventSequencer" where
  "exampleBuf = (NewEventBuffer [])\<lparr>
     pendingNotReady := True,
     pendingAddedIPSets := [''s1''],
     pendingAddedIPs := [(''s1'', Addr ''10.0.0.1''), (''s0'', Addr ''10.0.0.2'')],
     pendingPolicyUpdates := [(PolicyKey ''A'', Some (ParsedRules [''allow''] [] False))],
     pendingEndpointUpdates :=
       [(WorkloadEndpointKey ''host'' ''k8s'' ''w1'' ''eth0'', WorkloadEndpointOf exampleWorkload)],
     pendingEndpointTierUpdates :=
       [(WorkloadEndpointKey ''host'' ''k8s'' ''w1'' ''eth0'', exampleTiers)],
     pendingProfileDeletes := [ProfileRulesKey ''old''],
     pendingHostIPUpdates := [(''host'', Some (IP ''192.168.0.1''))],
     sentIPSets := [''s0''],
     sentProfiles := [ProfileRulesKey ''old'']\<rparr>"

definition exampleBufFlushed :: "(rawmap, string) EventSequencer" where
  "exampleBufFlushed = (NewEventBuffer [])\<lparr>
     sentIPSets := [''s0'', ''s1''],
     sentPolicies := [PolicyKey ''A''],
     sentEndpoints := [WorkloadEndpointKey ''host'' ''k8s'' ''w1'' ''eth0''],
     sentHostIPs := [''host'']\<rparr>"

definition exampleOut :: "string msg list" where
  "exampleOut =
     [DatastoreNotReady,
      IPSetUpdate ''s1'' [''10.0.0.1''],
      IPSetDeltaUpdate ''s0'' [''10.0.0.2''] [],
      ActivePolicyUpdate (proto_PolicyID ''default'' ''A'')
        (proto_Policy [''pol-in-default/Aallow''] [] False),
      WorkloadEndpointUpdate (proto_WorkloadEndpointID ''k8s'' ''w1'' ''eth0'')
        (proto_WorkloadEndpoint ''active'' ''eth0'' [] [''prof''] [''10.0.0.1/32''] []
           [proto_TierInfo ''default'' [''A'']] [] []),
      ActiveProfileRemove (proto_ProfileID ''old''),
      HostMetadataUpdate ''host'' ''192.168.0.1'']"

definition exampleParseLevel :: "string \<Rightarrow> Level option" where
  "exampleParseLevel s =
     (if s = ''debug'' then Some DebugLevel
      else if s = ''info'' then Some InfoLevel
      else if s = ''error'' then Some ErrorLevel
      else None)"


section \<open>Loops\<close>

lemma forEach_Cons_Inr:
  "forEach body (x # xs) s = Inr (s', out) \<longleftrightarrow>
     (\<exists>s1 o1 o2. body x s = Inr (s1, o1) \<and> forEach body xs s1 = Inr (s', o2) \<and> out = o1 @ o2)"
  by (auto split: sum.splits)

lemma forEach_append_Inr:
  "forEach body (xs @ ys) s = Inr (s', out) \<longleftrightarrow>
     (\<exists>s1 o1 o2. forEach body xs s = Inr (s1, o1) \<and> forEach body ys s1 = Inr (s', o2)
        \<and> out = o1 @ o2)"
proof (induction xs arbitrary: s out)
  case Nil
  then show ?case by simp
next
  case (Cons x xs)
  show ?case
    unfolding append_Cons forEach_Cons_Inr Cons.IH by (auto simp: append_assoc)
qed

text \<open>An invariant of the rounds is an invariant of the loop, and what holds of the
  messages of every round holds of the messages of the loop.\<close>

lemma forEach_inv_mem:
  assumes step: "\<And>x s s' out. x \<in> set xs \<Longrightarrow> I s \<Longrightarrow> body x s = Inr (s', out)
                   \<Longrightarrow> I s' \<and> (\<forall>m\<in>set out. Q m)"
  shows "I s \<Longrightarrow> forEach body xs s = Inr (s', out) \<Longrightarrow> I s' \<and> (\<forall>m\<in>set out. Q m)"
proof -
  have gen: "set ys \<subseteq> set xs \<Longrightarrow> I s \<Longrightarrow> forEach body ys s = Inr (s', out)
             \<Longrightarrow> I s' \<and> (\<forall>m\<in>set out. Q m)" for ys s out
  proof (induction ys arbitrary: s out)
    case Nil
    then show ?case by simp
  next
    case (Cons y ys)
    from Cons.prems(3) obtain s1 o1 o2 where
      b: "body y s = Inr (s1, o1)" and r: "forEach body ys s1 = Inr (s', o2)"
      and o: "out = o1 @ o2"
      unfolding forEach_Cons_Inr by blast
    have y: "y \<in> set xs" and ys: "set ys \<subseteq> set xs" using Cons.prems(1) by simp_all
    have h: "I s1 \<and> (\<forall>m\<in>set o1. Q m)"
      using step [OF y Cons.prems(2) b] .
    then have "I s' \<and> (\<forall>m\<in>set o2. Q m)"
      using Cons.IH [OF ys _ r] by simp
    with h o show ?case by auto
  qed
  show "I s \<Longrightarrow> forEach body xs s = Inr (s', out) \<Longrightarrow> I s' \<and> (\<forall>m\<in>set out. Q m)"
    using gen [of xs s out] by simp
qed

lemma forEach_inv:
  assumes step: "\<And>x s s' out. I s \<Longrightarrow> body x s = Inr (s', out)
                   \<Longrightarrow> I s' \<and> (\<forall>m\<in>set out. Q m)"
  shows "I s \<Longrightarrow> forEach body xs s = Inr (s', out) \<Longrightarrow> I s' \<and> (\<forall>m\<in>set out. Q m)"
  by (rule forEach_inv_mem [where I = I and body = body and xs = xs]) (rule step)


lemma forEach_fold:
  assumes "\<And>x s s' out. body x s = Inr (s', out) \<Longrightarrow> g s' = h x (g s)"
  shows "forEach body xs s = Inr (s', out) \<Longrightarrow> g s' = fold h xs (g s)"
proof (induction xs arbitrary: s out)
  case Nil
  then show ?case by simp
next
  case (Cons x xs)
  from Cons.prems obtain s1 o1 o2 where
    b: "body x s = Inr (s1, o1)" and r: "forEach body xs s1 = Inr (s', o2)"
    unfolding forEach_Cons_Inr by blast
  show ?case using Cons.IH [OF r] assms [OF b] by simp
qed

lemma Flush_phases: "Flush ext buf = forEach (\<lambda>f. f) (flushPhases ext) buf"
  by (simp add: Flush_def flushPhases_def)

lemma flushIPSetDeltas_Inr:
  "flushIPSetDeltas s = Inr (s', out) \<longleftrightarrow>
     (\<exists>s1 o1 o2. forEach flushAddsOrRemoves (mdKeys (pendingRemovedIPs s)) s = Inr (s1, o1)
        \<and> forEach flushAddsOrRemoves (mdKeys (pendingAddedIPs s1)) s1 = Inr (s', o2)
        \<and> out = o1 @ o2)"
  by (auto simp: flushIPSetDeltas_def split: sum.splits)

lemma flushEndpointTierUpdates_item_Inr:
  "flushEndpointTierUpdates_item e s = Inr (s', out) \<Longrightarrow>
   s' = s\<lparr>sentEndpoints := setAdd (sentEndpoints s) (fst e),
          pendingEndpointUpdates := AList.delete (fst e) (pendingEndpointUpdates s),
          pendingEndpointTierUpdates := AList.delete (fst e) (pendingEndpointTierUpdates s)\<rparr>"
  by (auto simp: flushEndpointTierUpdates_item_def split: prod.splits sum.splits)

text \<open>The definitions that evaluate a flush on a given state.\<close>

lemmas flush_defs = Flush_def flushReadyFlag_def flushConfigUpdate_def
  flushAddedIPSets_def flushAddedIPSets_item_def flushIPSetDeltas_def flushAddsOrRemoves_def
  flushPolicyUpdates_def flushPolicyUpdates_item_def flushProfileUpdates_def
  flushProfileUpdates_item_def flushEndpointTierUpdates_def flushEndpointTierUpdates_item_def
  flushEndpointTierDeletes_def flushEndpointTierDeletes_item_def flushProfileDeletes_def
  flushProfileDeletes_item_def flushPolicyDeletes_def flushPolicyDeletes_item_def
  flushRemovedIPSets_def flushRemovedIPSets_item_def flushHostIPDeletes_def
  flushHostIPDeletes_item_def flushHostIPUpdates_def flushHostIPUpdates_item_def
  flushIPPoolDeletes_def flushIPPoolDeletes_item_def flushIPPoolUpdates_def
  flushIPPoolUpdates_item_def
  setAdd_def setDiscard_def setContains_def mdContains_def mdPut_def mdDiscard_def
  mdDiscardKey_def mdValues_def mdKeys_def
  tierInfoToProtoTierInfo_def splitPolicies_def ModelWorkloadEndpointToProto_def
  ModelHostEndpointToProto_def netsToStrings_def ipsToStrings_def natsToProtoNatInfo_def
  cidrToIPPoolID_def

lemmas example_defs = exampleBuf_def exampleBufFlushed_def exampleOut_def exampleExternals_def
  exampleWorkload_def exampleHost_def exampleTiers_def NewEventBuffer_def

lemma exampleBuf_Flush: "Flush exampleExternals exampleBuf = Inr (exampleBufFlushed, exampleOut)"
  by (simp add: example_defs flush_defs)

section \<open>The order of a flush\<close>






















section \<open>A flush drains the pending buffers\<close>

lemma shrinks_refl: "shrinks s s"
  by (simp add: shrinks_def)

lemma shrinks_trans: "shrinks s t \<Longrightarrow> shrinks t u \<Longrightarrow> shrinks s u"
  unfolding shrinks_def by (elim conjE, intro conjI) (erule (1) order_trans | simp)+

lemma set_AList_delete_subset: "set (AList.delete k m) \<subseteq> set m"
  by (auto simp: AList.delete_eq)

lemma set_mdDiscardKey_subset: "set (mdDiscardKey m k) \<subseteq> set m"
  by (auto simp: mdDiscardKey_def)

lemma set_setDiscard_subset: "set (setDiscard s x) \<subseteq> set s"
  by (auto simp: setDiscard_def)

lemma forEach_shrinks:
  assumes "\<And>x s s' out. body x s = Inr (s', out) \<Longrightarrow> shrinks s s'"
  shows "forEach body xs s = Inr (s', out) \<Longrightarrow> shrinks s s'"
proof -
  assume a: "forEach body xs s = Inr (s', out)"
  have step: "\<And>x t t' ou. shrinks s t \<Longrightarrow> body x t = Inr (t', ou)
               \<Longrightarrow> shrinks s t' \<and> (\<forall>m\<in>set ou. True)"
  proof -
    fix x t t' ou
    assume 1: "shrinks s t" and 2: "body x t = Inr (t', ou)"
    from assms [OF 2] have "shrinks t t'" .
    with 1 have "shrinks s t'" by (rule shrinks_trans)
    then show "shrinks s t' \<and> (\<forall>m\<in>set ou. True)" by simp
  qed
  have "shrinks s s' \<and> (\<forall>m\<in>set out. True)"
    by (rule forEach_inv [of "shrinks s" body "\<lambda>_. True", OF step shrinks_refl a])
  then show ?thesis by simp
qed

lemma fold_setDiscard: "set (fold (\<lambda>x l. setDiscard l x) xs ys) = set ys - set xs"
  by (induction xs arbitrary: ys) (auto simp: setDiscard_def)

lemma fold_AList_delete:
  "set (fold (\<lambda>e m. AList.delete (fst e) m) xs ys) = {q \<in> set ys. fst q \<notin> fst ` set xs}"
  by (induction xs arbitrary: ys) (auto simp: AList.delete_eq)

lemma fold_mdDiscardKey:
  "set (fold (\<lambda>k m. mdDiscardKey m k) ks m) = {p \<in> set m. fst p \<notin> set ks}"
  by (induction ks arbitrary: m) (auto simp: mdDiscardKey_def)

lemmas shrink_simps = shrinks_def set_AList_delete_subset set_mdDiscardKey_subset
  set_setDiscard_subset

lemma in_AList_delete: "p \<in> set (AList.delete k m) \<Longrightarrow> p \<in> set m"
  by (auto simp: AList.delete_eq)

lemma in_setDiscard: "y \<in> set (setDiscard l x) \<Longrightarrow> y \<in> set l"
  by (auto simp: setDiscard_def)

lemma in_mdDiscardKey: "p \<in> set (mdDiscardKey m k) \<Longrightarrow> p \<in> set m"
  by (auto simp: mdDiscardKey_def)

lemmas shrink_dests = in_AList_delete in_setDiscard in_mdDiscardKey

lemma set_empty_conv: "set l = {} \<Longrightarrow> l = []"
  by simp

lemma set_mdKeys: "set (mdKeys m) = fst ` set m"
  by (simp add: mdKeys_def)

lemma drain_set: "set (fold (\<lambda>x l. setDiscard l x) xs xs) = {}"
  by (simp add: fold_setDiscard)

lemma drain_map: "set (fold (\<lambda>e m. AList.delete (fst e) m) xs xs) = {}"
  by (auto simp: fold_AList_delete)

lemma drain_md: "set (fold (\<lambda>k m. mdDiscardKey m k) (mdKeys m) m) = {}"
  by (auto simp: fold_mdDiscardKey set_mdKeys)

lemma flushReadyFlag_drain:
  "flushReadyFlag s = Inr (s', out) \<Longrightarrow> shrinks s s' \<and> \<not> pendingNotReady s'"
  by (auto simp: flushReadyFlag_def shrinks_def split: if_splits)

lemma flushConfigUpdate_drain:
  "flushConfigUpdate ext s = Inr (s', out) \<Longrightarrow> shrinks s s' \<and> pendingGlobalConfig s' = None"
  by (auto simp: flushConfigUpdate_def shrinks_def split: if_splits sum.splits)

lemma flushAddedIPSets_drain:
  assumes "flushAddedIPSets s = Inr (s', out)"
  shows "shrinks s s' \<and> pendingAddedIPSets s' = []"
proof -
  note a = assms [unfolded flushAddedIPSets_def]
  have 1: "shrinks s s'"
    by (rule forEach_shrinks [OF _ a]) (auto simp: flushAddedIPSets_item_def shrink_simps dest: shrink_dests)
  have "pendingAddedIPSets s' = fold (\<lambda>x l. setDiscard l x) (pendingAddedIPSets s) (pendingAddedIPSets s)"
    by (rule forEach_fold [OF _ a]) (auto simp: flushAddedIPSets_item_def)
  with 1 show ?thesis by (simp add: drain_set set_empty_conv)
qed

lemma flushAddsOrRemoves_loop:
  assumes a: "forEach flushAddsOrRemoves ks s = Inr (s', out)"
  shows "shrinks s s'"
    and "pendingAddedIPs s' = fold (\<lambda>k m. mdDiscardKey m k) ks (pendingAddedIPs s)"
    and "pendingRemovedIPs s' = fold (\<lambda>k m. mdDiscardKey m k) ks (pendingRemovedIPs s)"
proof -
  show "shrinks s s'"
    by (rule forEach_shrinks [OF _ a]) (auto simp: flushAddsOrRemoves_def shrink_simps dest: shrink_dests)
  show "pendingAddedIPs s' = fold (\<lambda>k m. mdDiscardKey m k) ks (pendingAddedIPs s)"
    by (rule forEach_fold [OF _ a]) (auto simp: flushAddsOrRemoves_def)
  show "pendingRemovedIPs s' = fold (\<lambda>k m. mdDiscardKey m k) ks (pendingRemovedIPs s)"
    by (rule forEach_fold [OF _ a]) (auto simp: flushAddsOrRemoves_def)
qed

lemma flushIPSetDeltas_drain:
  assumes "flushIPSetDeltas s = Inr (s', out :: 'p msg list)"
  shows "shrinks s s' \<and> pendingRemovedIPs s' = [] \<and> pendingAddedIPs s' = []"
proof -
  from assms obtain s1 and o1 o2 :: "'p msg list" where
    l1: "forEach flushAddsOrRemoves (mdKeys (pendingRemovedIPs s)) s = Inr (s1, o1)" and
    l2: "forEach flushAddsOrRemoves (mdKeys (pendingAddedIPs s1)) s1 = Inr (s', o2)"
    unfolding flushIPSetDeltas_Inr by blast
  have r1: "pendingRemovedIPs s1 = []"
    using flushAddsOrRemoves_loop(3) [OF l1] by (simp add: drain_md set_empty_conv)
  have a2: "pendingAddedIPs s' = []"
    using flushAddsOrRemoves_loop(2) [OF l2] by (simp add: drain_md set_empty_conv)
  have sh: "shrinks s s'"
    using flushAddsOrRemoves_loop(1) [OF l1] flushAddsOrRemoves_loop(1) [OF l2]
    by (rule shrinks_trans)
  have "set (pendingRemovedIPs s') \<subseteq> set (pendingRemovedIPs s1)"
    using flushAddsOrRemoves_loop(1) [OF l2] by (simp add: shrinks_def)
  with r1 have "pendingRemovedIPs s' = []" by simp
  with a2 sh show ?thesis by simp
qed

lemma flushPolicyUpdates_drain:
  assumes "flushPolicyUpdates ext s = Inr (s', out)"
  shows "shrinks s s' \<and> pendingPolicyUpdates s' = []"
proof -
  note a = assms [unfolded flushPolicyUpdates_def]
  have 1: "shrinks s s'"
    by (rule forEach_shrinks [OF _ a])
       (auto simp: flushPolicyUpdates_item_def shrink_simps dest: shrink_dests split: prod.splits option.splits)
  have "pendingPolicyUpdates s' =
          fold (\<lambda>e m. AList.delete (fst e) m) (pendingPolicyUpdates s) (pendingPolicyUpdates s)"
    by (rule forEach_fold [OF _ a])
       (auto simp: flushPolicyUpdates_item_def split: prod.splits option.splits)
  with 1 show ?thesis by (simp add: drain_map set_empty_conv)
qed

lemma flushProfileUpdates_drain:
  assumes "flushProfileUpdates ext s = Inr (s', out)"
  shows "shrinks s s' \<and> pendingProfileUpdates s' = []"
proof -
  note a = assms [unfolded flushProfileUpdates_def]
  have 1: "shrinks s s'"
    by (rule forEach_shrinks [OF _ a])
       (auto simp: flushProfileUpdates_item_def shrink_simps dest: shrink_dests split: prod.splits option.splits)
  have "pendingProfileUpdates s' =
          fold (\<lambda>e m. AList.delete (fst e) m) (pendingProfileUpdates s) (pendingProfileUpdates s)"
    by (rule forEach_fold [OF _ a])
       (auto simp: flushProfileUpdates_item_def split: prod.splits option.splits)
  with 1 show ?thesis by (simp add: drain_map set_empty_conv)
qed

lemma flushEndpointTierUpdates_drain:
  assumes "flushEndpointTierUpdates s = Inr (s', out)"
  shows "shrinks s s' \<and> pendingEndpointUpdates s' = []"
proof -
  note a = assms [unfolded flushEndpointTierUpdates_def]
  have 1: "shrinks s s'"
    by (rule forEach_shrinks [OF _ a])
       (drule flushEndpointTierUpdates_item_Inr, simp add: shrink_simps)
  have "pendingEndpointUpdates s' =
          fold (\<lambda>e m. AList.delete (fst e) m) (pendingEndpointUpdates s) (pendingEndpointUpdates s)"
    by (rule forEach_fold [OF _ a]) (auto dest!: flushEndpointTierUpdates_item_Inr)
  with 1 show ?thesis by (simp add: drain_map set_empty_conv)
qed

lemma flushEndpointTierDeletes_drain:
  assumes "flushEndpointTierDeletes s = Inr (s', out)"
  shows "shrinks s s' \<and> pendingEndpointDeletes s' = []"
proof -
  note a = assms [unfolded flushEndpointTierDeletes_def]
  have 1: "shrinks s s'"
    by (rule forEach_shrinks [OF _ a]) (auto simp: flushEndpointTierDeletes_item_def shrink_simps dest: shrink_dests)
  have "pendingEndpointDeletes s' =
          fold (\<lambda>x l. setDiscard l x) (pendingEndpointDeletes s) (pendingEndpointDeletes s)"
    by (rule forEach_fold [OF _ a]) (auto simp: flushEndpointTierDeletes_item_def)
  with 1 show ?thesis by (simp add: drain_set set_empty_conv)
qed

lemma flushProfileDeletes_drain:
  assumes "flushProfileDeletes s = Inr (s', out)"
  shows "shrinks s s' \<and> pendingProfileDeletes s' = []"
proof -
  note a = assms [unfolded flushProfileDeletes_def]
  have 1: "shrinks s s'"
    by (rule forEach_shrinks [OF _ a]) (auto simp: flushProfileDeletes_item_def shrink_simps dest: shrink_dests)
  have "pendingProfileDeletes s' =
          fold (\<lambda>x l. setDiscard l x) (pendingProfileDeletes s) (pendingProfileDeletes s)"
    by (rule forEach_fold [OF _ a]) (auto simp: flushProfileDeletes_item_def)
  with 1 show ?thesis by (simp add: drain_set set_empty_conv)
qed

lemma flushPolicyDeletes_drain:
  assumes "flushPolicyDeletes s = Inr (s', out)"
  shows "shrinks s s' \<and> pendingPolicyDeletes s' = []"
proof -
  note a = assms [unfolded flushPolicyDeletes_def]
  have 1: "shrinks s s'"
    by (rule forEach_shrinks [OF _ a]) (auto simp: flushPolicyDeletes_item_def shrink_simps dest: shrink_dests)
  have "pendingPolicyDeletes s' =
          fold (\<lambda>x l. setDiscard l x) (pendingPolicyDeletes s) (pendingPolicyDeletes s)"
    by (rule forEach_fold [OF _ a]) (auto simp: flushPolicyDeletes_item_def)
  with 1 show ?thesis by (simp add: drain_set set_empty_conv)
qed

lemma flushRemovedIPSets_drain:
  assumes "flushRemovedIPSets s = Inr (s', out)"
  shows "shrinks s s' \<and> pendingRemovedIPSets s' = []"
proof -
  note a = assms [unfolded flushRemovedIPSets_def]
  have 1: "shrinks s s'"
    by (rule forEach_shrinks [OF _ a]) (auto simp: flushRemovedIPSets_item_def shrink_simps dest: shrink_dests)
  have "pendingRemovedIPSets s' =
          fold (\<lambda>x l. setDiscard l x) (pendingRemovedIPSets s) (pendingRemovedIPSets s)"
    by (rule forEach_fold [OF _ a]) (auto simp: flushRemovedIPSets_item_def)
  with 1 show ?thesis by (simp add: drain_set set_empty_conv)
qed

lemma flushHostIPDeletes_drain:
  assumes "flushHostIPDeletes s = Inr (s', out)"
  shows "shrinks s s' \<and> pendingHostIPDeletes s' = []"
proof -
  note a = assms [unfolded flushHostIPDeletes_def]
  have 1: "shrinks s s'"
    by (rule forEach_shrinks [OF _ a]) (auto simp: flushHostIPDeletes_item_def shrink_simps dest: shrink_dests)
  have "pendingHostIPDeletes s' =
          fold (\<lambda>x l. setDiscard l x) (pendingHostIPDeletes s) (pendingHostIPDeletes s)"
    by (rule forEach_fold [OF _ a]) (auto simp: flushHostIPDeletes_item_def)
  with 1 show ?thesis by (simp add: drain_set set_empty_conv)
qed

lemma flushHostIPUpdates_drain:
  assumes "flushHostIPUpdates s = Inr (s', out)"
  shows "shrinks s s' \<and> pendingHostIPUpdates s' = []"
proof -
  note a = assms [unfolded flushHostIPUpdates_def]
  have 1: "shrinks s s'"
    by (rule forEach_shrinks [OF _ a])
       (auto simp: flushHostIPUpdates_item_def shrink_simps dest: shrink_dests split: prod.splits option.splits)
  have "pendingHostIPUpdates s' =
          fold (\<lambda>e m. AList.delete (fst e) m) (pendingHostIPUpdates s) (pendingHostIPUpdates s)"
    by (rule forEach_fold [OF _ a])
       (auto simp: flushHostIPUpdates_item_def split: prod.splits option.splits)
  with 1 show ?thesis by (simp add: drain_map set_empty_conv)
qed

lemma flushIPPoolDeletes_drain:
  assumes "flushIPPoolDeletes s = Inr (s', out)"
  shows "shrinks s s' \<and> pendingIPPoolDeletes s' = []"
proof -
  note a = assms [unfolded flushIPPoolDeletes_def]
  have 1: "shrinks s s'"
    by (rule forEach_shrinks [OF _ a])
       (auto simp: flushIPPoolDeletes_item_def shrink_simps dest: shrink_dests split: poolItem.splits)
  have "pendingIPPoolDeletes s' =
          fold (\<lambda>x l. setDiscard l x) (pendingIPPoolDeletes s) (pendingIPPoolDeletes s)"
    by (rule forEach_fold [OF _ a])
       (auto simp: flushIPPoolDeletes_item_def split: poolItem.splits)
  with 1 show ?thesis by (simp add: drain_set set_empty_conv)
qed

lemma flushIPPoolUpdates_drain:
  assumes "flushIPPoolUpdates s = Inr (s', out)"
  shows "shrinks s s' \<and> pendingIPPoolUpdates s' = []"
proof -
  note a = assms [unfolded flushIPPoolUpdates_def]
  have 1: "shrinks s s'"
    by (rule forEach_shrinks [OF _ a])
       (auto simp: flushIPPoolUpdates_item_def shrink_simps dest: shrink_dests split: prod.splits option.splits)
  have "pendingIPPoolUpdates s' =
          fold (\<lambda>e m. AList.delete (fst e) m) (pendingIPPoolUpdates s) (pendingIPPoolUpdates s)"
    by (rule forEach_fold [OF _ a])
       (auto simp: flushIPPoolUpdates_item_def split: prod.splits option.splits)
  with 1 show ?thesis by (simp add: drain_map set_empty_conv)
qed

lemma phases_drain:
  assumes "list_all2 (\<lambda>f D. \<forall>s s' out. f s = Inr (s', out) \<longrightarrow> shrinks s s' \<and> D s') fs Ds"
    and "\<forall>D\<in>set Ds. \<forall>s t. D s \<longrightarrow> shrinks s t \<longrightarrow> D t"
  shows "forEach (\<lambda>f. f) fs s = Inr (s', out) \<Longrightarrow> shrinks s s' \<and> (\<forall>D\<in>set Ds. D s')"
  using assms
proof (induction fs Ds arbitrary: s out rule: list_all2_induct)
  case Nil
  then show ?case by (simp add: shrinks_refl)
next
  case (Cons f fs D Ds)
  from Cons.prems(1) obtain s1 o1 o2 where
    b: "f s = Inr (s1, o1)" and r: "forEach (\<lambda>f. f) fs s1 = Inr (s', o2)"
    unfolding forEach_Cons_Inr by blast
  have h1: "shrinks s s1" and d1: "D s1" using Cons.hyps(1) b by blast+
  have c2: "\<forall>D\<in>set Ds. \<forall>s t. D s \<longrightarrow> shrinks s t \<longrightarrow> D t"
    using Cons.prems(2) by auto
  have h2: "shrinks s1 s'" and d2: "\<forall>D\<in>set Ds. D s'"
    using Cons.IH [OF r c2] by blast+
  have "D s'" using Cons.prems(2) d1 h2 by auto
  with d2 shrinks_trans [OF h1 h2] show ?case by auto
qed

lemmas flush_drains = flushReadyFlag_drain flushConfigUpdate_drain flushAddedIPSets_drain
  flushIPSetDeltas_drain flushPolicyUpdates_drain flushProfileUpdates_drain
  flushEndpointTierUpdates_drain flushEndpointTierDeletes_drain flushProfileDeletes_drain
  flushPolicyDeletes_drain flushRemovedIPSets_drain flushHostIPDeletes_drain
  flushHostIPUpdates_drain flushIPPoolDeletes_drain flushIPPoolUpdates_drain

lemma Flush_drains:
  assumes "Flush ext buf = Inr (buf', out)"
  shows "drained buf'"
proof -
  have 1: "list_all2 (\<lambda>f D. \<forall>s s' out. f s = Inr (s', out) \<longrightarrow> shrinks s s' \<and> D s')
     [flushReadyFlag, flushConfigUpdate ext, flushAddedIPSets, flushIPSetDeltas,
      flushPolicyUpdates ext, flushProfileUpdates ext, flushEndpointTierUpdates,
      flushEndpointTierDeletes, flushProfileDeletes, flushPolicyDeletes, flushRemovedIPSets,
      flushHostIPDeletes, flushHostIPUpdates, flushIPPoolDeletes, flushIPPoolUpdates]
     [\<lambda>s. \<not> pendingNotReady s,
      \<lambda>s. pendingGlobalConfig s = None,
      \<lambda>s. pendingAddedIPSets s = [],
      \<lambda>s. pendingRemovedIPs s = [] \<and> pendingAddedIPs s = [],
      \<lambda>s. pendingPolicyUpdates s = [],
      \<lambda>s. pendingProfileUpdates s = [],
      \<lambda>s. pendingEndpointUpdates s = [],
      \<lambda>s. pendingEndpointDeletes s = [],
      \<lambda>s. pendingProfileDeletes s = [],
      \<lambda>s. pendingPolicyDeletes s = [],
      \<lambda>s. pendingRemovedIPSets s = [],
      \<lambda>s. pendingHostIPDeletes s = [],
      \<lambda>s. pendingHostIPUpdates s = [],
      \<lambda>s. pendingIPPoolDeletes s = [],
      \<lambda>s. pendingIPPoolUpdates s = []]"
    by (simp only: list_all2_Cons list_all2_Nil simp_thms)
       (intro conjI allI impI; drule flush_drains; simp)
  show ?thesis
    using phases_drain [OF 1 _ assms [unfolded Flush_phases flushPhases_def]]
    by (simp add: shrinks_def drained_def)
qed

lemma Flush_drained:
  assumes "drained buf"
  shows "Flush ext buf = Inr (buf, [])"
  using assms
  by (simp add: drained_def Flush_def flushReadyFlag_def flushConfigUpdate_def
      flushAddedIPSets_def flushIPSetDeltas_def flushPolicyUpdates_def flushProfileUpdates_def
      flushEndpointTierUpdates_def flushEndpointTierDeletes_def flushProfileDeletes_def
      flushPolicyDeletes_def flushRemovedIPSets_def flushHostIPDeletes_def
      flushHostIPUpdates_def flushIPPoolDeletes_def flushIPPoolUpdates_def mdKeys_def)


text \<open>
  C6. Idempotence of a no-op flush: when a call of \<^verbatim>\<open>Flush()\<close> returns, a second call
  with no input in between emits no message, and leaves the sequencer as it is. This holds
  for every state of the sequencer, since every flush drains the buffers it reads.
\<close>

theorem Flush_twice:
  assumes "Flush ext buf = Inr (buf', out)"
  shows "Flush ext buf' = Inr (buf', [])"
  by (rule Flush_drained [OF Flush_drains [OF assms]])

theorem Flush_twice_witness:
  "Flush exampleExternals exampleBuf = Inr (exampleBufFlushed, exampleOut)
   \<and> Flush exampleExternals exampleBufFlushed = Inr (exampleBufFlushed, [])"
  using Flush_twice [OF exampleBuf_Flush] exampleBuf_Flush by simp

section \<open>The hostname filter\<close>

text \<open>
  C7. For every update, \<^verbatim>\<open>endpointHostnameFilter.OnUpdate\<close> returns \<^verbatim>\<open>filterOut = true\<close>
  exactly when the key of the update is a workload-endpoint key or a host-endpoint key whose
  \<^verbatim>\<open>Hostname\<close> differs from the hostname of the filter, and \<^verbatim>\<open>false\<close> otherwise.
\<close>

theorem hostname_filter_exact:
  "endpointHostnameFilter_OnUpdate f u \<longleftrightarrow>
     (\<exists>h orch w e. upd_Key u = WorkloadEndpointKey h orch w e \<and> h \<noteq> f_hostname f)
     \<or> (\<exists>h e. upd_Key u = HostEndpointKey h e \<and> h \<noteq> f_hostname f)"
  by (cases "upd_Key u") auto

theorem hostname_filter_exact_witness:
  "endpointHostnameFilter_OnUpdate (endpointHostnameFilter ''this'')
      (Update (WorkloadEndpointKey ''other'' ''k8s'' ''w'' ''eth0'') (Some exampleWorkload))
   \<and> \<not> endpointHostnameFilter_OnUpdate (endpointHostnameFilter ''this'')
      (Update (WorkloadEndpointKey ''this'' ''k8s'' ''w'' ''eth0'') (Some exampleWorkload))
   \<and> endpointHostnameFilter_OnUpdate (endpointHostnameFilter ''this'')
      (Update (HostEndpointKey ''other'' ''eth1'') (Some exampleHost))
   \<and> \<not> endpointHostnameFilter_OnUpdate (endpointHostnameFilter ''this'')
      (Update (PolicyKeyOf (PolicyKey ''p'')) (None :: Policy option))"
  using hostname_filter_exact [of "endpointHostnameFilter ''this''"
      "Update (WorkloadEndpointKey ''other'' ''k8s'' ''w'' ''eth0'') (Some exampleWorkload)"]
    hostname_filter_exact [of "endpointHostnameFilter ''this''"
      "Update (WorkloadEndpointKey ''this'' ''k8s'' ''w'' ''eth0'') (Some exampleWorkload)"]
    hostname_filter_exact [of "endpointHostnameFilter ''this''"
      "Update (HostEndpointKey ''other'' ''eth1'') (Some exampleHost)"]
    hostname_filter_exact [of "endpointHostnameFilter ''this''"
      "Update (PolicyKeyOf (PolicyKey ''p'')) (None :: Policy option)"]
  by simp

section \<open>The log level\<close>

text \<open>
  C9. In \<^verbatim>\<open>ConfigureLogging\<close>, whenever the parsed syslog level is strictly more verbose
  than both the parsed screen level and the parsed file level, the level passed to
  \<^verbatim>\<open>log.SetLevel\<close> is the screen level and not the syslog level.
\<close>

theorem ConfigureLogging_syslog_most_verbose:
  assumes "safeParseLogLevel P (LogSeveritySys c) > safeParseLogLevel P (LogSeverityScreen c)"
    and "safeParseLogLevel P (LogSeveritySys c) > safeParseLogLevel P (LogSeverityFile c)"
  shows "ConfigureLogging_SetLevel P c = safeParseLogLevel P (LogSeverityScreen c)
         \<and> ConfigureLogging_SetLevel P c \<noteq> safeParseLogLevel P (LogSeveritySys c)"
  using assms by (auto simp: ConfigureLogging_SetLevel_def Let_def)

theorem ConfigureLogging_syslog_most_verbose_witness:
  "safeParseLogLevel exampleParseLevel ''debug'' > safeParseLogLevel exampleParseLevel ''error''
   \<and> safeParseLogLevel exampleParseLevel ''debug'' > safeParseLogLevel exampleParseLevel ''info''
   \<and> ConfigureLogging_SetLevel exampleParseLevel
        \<lparr>LogSeverityScreen = ''error'', LogSeverityFile = ''info'', LogSeveritySys = ''debug''\<rparr>
       = ErrorLevel
   \<and> safeParseLogLevel exampleParseLevel ''debug'' = DebugLevel"
  using ConfigureLogging_syslog_most_verbose [of exampleParseLevel
      "\<lparr>LogSeverityScreen = ''error'', LogSeverityFile = ''info'', LogSeveritySys = ''debug''\<rparr>"]
  by (simp add: safeParseLogLevel_def exampleParseLevel_def DebugLevel_def InfoLevel_def
      ErrorLevel_def PanicLevel_def)

section \<open>The order of policies\<close>










section \<open>The consistency checks of the IP set calls\<close>

text \<open>
  C3. \<^verbatim>\<open>OnIPSetAdded\<close> panics exactly when the set ID is in the sent set and has no
  pending removal; \<^verbatim>\<open>OnIPAdded\<close>, \<^verbatim>\<open>OnIPRemoved\<close> and \<^verbatim>\<open>OnIPSetRemoved\<close> panic exactly
  when the set ID is neither in the sent set nor pending-added.
\<close>

theorem ip_set_consistency_checks:
  "(OnIPSetAdded buf setID = Inl (Panic ''OnIPSetAdded called for existing IP set'')
      \<longleftrightarrow> setID \<in> set (sentIPSets buf) \<and> setID \<notin> set (pendingRemovedIPSets buf))
   \<and> (isl (OnIPSetAdded buf setID)
      \<longleftrightarrow> setID \<in> set (sentIPSets buf) \<and> setID \<notin> set (pendingRemovedIPSets buf))
   \<and> (OnIPAdded buf setID ip = Inl (Panic ''IP added to unknown IP set'')
      \<longleftrightarrow> setID \<notin> set (sentIPSets buf) \<and> setID \<notin> set (pendingAddedIPSets buf))
   \<and> (isl (OnIPAdded buf setID ip)
      \<longleftrightarrow> setID \<notin> set (sentIPSets buf) \<and> setID \<notin> set (pendingAddedIPSets buf))
   \<and> (OnIPRemoved buf setID ip = Inl (Panic ''IP removed from unknown IP set'')
      \<longleftrightarrow> setID \<notin> set (sentIPSets buf) \<and> setID \<notin> set (pendingAddedIPSets buf))
   \<and> (isl (OnIPRemoved buf setID ip)
      \<longleftrightarrow> setID \<notin> set (sentIPSets buf) \<and> setID \<notin> set (pendingAddedIPSets buf))
   \<and> (OnIPSetRemoved buf setID = Inl (Panic ''IPSetRemoved called for unknown IP set'')
      \<longleftrightarrow> setID \<notin> set (sentIPSets buf) \<and> setID \<notin> set (pendingAddedIPSets buf))
   \<and> (isl (OnIPSetRemoved buf setID)
      \<longleftrightarrow> setID \<notin> set (sentIPSets buf) \<and> setID \<notin> set (pendingAddedIPSets buf))"
  by (simp add: OnIPSetAdded_def OnIPAdded_def OnIPRemoved_def OnIPSetRemoved_def
      setContains_def Let_def)

theorem ip_set_consistency_checks_witness:
  "OnIPSetAdded exampleBuf ''s0'' = Inl (Panic ''OnIPSetAdded called for existing IP set'')
   \<and> \<not> isl (OnIPSetAdded exampleBuf ''s1'')
   \<and> OnIPAdded exampleBuf ''s9'' (Addr ''10.0.0.9'') = Inl (Panic ''IP added to unknown IP set'')
   \<and> \<not> isl (OnIPAdded exampleBuf ''s1'' (Addr ''10.0.0.9''))
   \<and> OnIPRemoved exampleBuf ''s9'' (Addr ''10.0.0.9'')
       = Inl (Panic ''IP removed from unknown IP set'')
   \<and> \<not> isl (OnIPRemoved exampleBuf ''s0'' (Addr ''10.0.0.9''))
   \<and> OnIPSetRemoved exampleBuf ''s9'' = Inl (Panic ''IPSetRemoved called for unknown IP set'')
   \<and> \<not> isl (OnIPSetRemoved exampleBuf ''s0'')"
  using ip_set_consistency_checks [of exampleBuf "''s0''" "Addr ''10.0.0.9''"]
    ip_set_consistency_checks [of exampleBuf "''s1''" "Addr ''10.0.0.9''"]
    ip_set_consistency_checks [of exampleBuf "''s9''" "Addr ''10.0.0.9''"]
  by (simp add: exampleBuf_def NewEventBuffer_def)

end
